theory Spec2Isabelle
  imports Main
begin

section \<open>The run trigger pipeline of \<^verbatim>\<open>triggerTaskV2.server.ts\<close>\<close>

text \<open>
  The development embeds \<^verbatim>\<open>apps/webapp/app/v3/services/triggerTaskV2.server.ts\<close>:
  the duration grammar (\<^verbatim>\<open>stringifyDuration\<close>, \<^verbatim>\<open>parseNaturalLanguageDuration\<close>,
  \<^verbatim>\<open>parseDelay\<close>), the payload packet handler, the queue name resolver and
  \<^verbatim>\<open>TriggerTaskServiceV2.call\<close>.

  Conventions of the embedding.
  \<^item> A JavaScript \<^verbatim>\<open>number\<close> that the source uses as an integer (seconds, depth, lengths)
    is an \<open>int\<close>; doubles represent every integer of the ranges involved exactly.
  \<^item> \<^verbatim>\<open>undefined\<close> and \<^verbatim>\<open>null\<close> are \<open>None\<close>; an optional field is an \<open>option\<close>.
  \<^item> A \<^verbatim>\<open>Date\<close> is its time value, an \<open>int\<close> of milliseconds since the epoch.
  \<^item> Truthiness of a string is non-emptiness, as in JavaScript.
\<close>

subsection \<open>Decimal numerals\<close>

text \<open>
  A template literal \<^verbatim>\<open>`${val}`\<close> prints an integer in decimal, and \<^verbatim>\<open>Number(s)\<close>
  reads a string of decimal digits (leading zeros allowed) back.
\<close>

definition digit_chars :: string where
  "digit_chars = ''0123456789''"

definition is_digit :: "char \<Rightarrow> bool" where
  "is_digit c = (c \<in> set digit_chars)"

definition digit_char :: "nat \<Rightarrow> char" where
  "digit_char d = digit_chars ! (d mod 10)"

definition digit_val :: "char \<Rightarrow> nat" where
  "digit_val c = of_char c - 48"

function show_nat :: "nat \<Rightarrow> string" where
  "show_nat n = (if n < 10 then [digit_char n] else show_nat (n div 10) @ [digit_char (n mod 10)])"
  by pat_completeness auto
termination
  by (relation "measure (\<lambda>n. n)") auto

definition number_toString :: "int \<Rightarrow> string" where
  "number_toString i = (if i < 0 then CHR ''-'' # show_nat (nat (- i)) else show_nat (nat i))"

definition Number_of_digits :: "string \<Rightarrow> int" where
  "Number_of_digits ds = int (foldl (\<lambda>acc c. 10 * acc + digit_val c) 0 ds)"

subsection \<open>Dates and the host's local time\<close>

text \<open>
  \<^verbatim>\<open>setDate\<close>, \<^verbatim>\<open>setHours\<close>, \<^verbatim>\<open>setMinutes\<close> and \<^verbatim>\<open>setSeconds\<close> (and their getters) work on
  the local time of the host. ECMA-262 computes them as follows: the time value \<open>t\<close> is
  turned into local time \<open>LocalTime t = t + LocalTZA(t, true)\<close>, the field is replaced
  (\<open>MakeDay\<close>, \<open>MakeTime\<close>, \<open>MakeDate\<close>), and the result is turned back with
  \<open>UTC l = l - LocalTZA(l, false)\<close>. When the new value of a field is the old one plus
  \<open>k\<close>, the local time moves by exactly \<open>k\<close> units of that field. The two offset
  functions of the host's time zone are parameters.
\<close>

type_synonym date = int

record timezone =
  LocalTZA_of_utc :: "int \<Rightarrow> int"
  LocalTZA_of_local :: "int \<Rightarrow> int"

definition msPerSecond :: int where "msPerSecond = 1000"
definition msPerMinute :: int where "msPerMinute = 60000"
definition msPerHour :: int where "msPerHour = 3600000"
definition msPerDay :: int where "msPerDay = 86400000"

definition LocalTime :: "timezone \<Rightarrow> date \<Rightarrow> int" where
  "LocalTime tz t = t + LocalTZA_of_utc tz t"

definition UTC :: "timezone \<Rightarrow> int \<Rightarrow> date" where
  "UTC tz l = l - LocalTZA_of_local tz l"

text \<open>\<^verbatim>\<open>result.setDate(result.getDate() + k)\<close>\<close>
definition setDate_plus :: "timezone \<Rightarrow> int \<Rightarrow> date \<Rightarrow> date" where
  "setDate_plus tz k t = UTC tz (LocalTime tz t + k * msPerDay)"

text \<open>\<^verbatim>\<open>result.setHours(result.getHours() + k)\<close>\<close>
definition setHours_plus :: "timezone \<Rightarrow> int \<Rightarrow> date \<Rightarrow> date" where
  "setHours_plus tz k t = UTC tz (LocalTime tz t + k * msPerHour)"

text \<open>\<^verbatim>\<open>result.setMinutes(result.getMinutes() + k)\<close>\<close>
definition setMinutes_plus :: "timezone \<Rightarrow> int \<Rightarrow> date \<Rightarrow> date" where
  "setMinutes_plus tz k t = UTC tz (LocalTime tz t + k * msPerMinute)"

text \<open>\<^verbatim>\<open>result.setSeconds(result.getSeconds() + k)\<close>\<close>
definition setSeconds_plus :: "timezone \<Rightarrow> int \<Rightarrow> date \<Rightarrow> date" where
  "setSeconds_plus tz k t = UTC tz (LocalTime tz t + k * msPerSecond)"

text \<open>A host whose local time is at a constant offset from UTC (UTC itself is offset 0).\<close>
definition fixed_offset :: "int \<Rightarrow> timezone" where
  "fixed_offset c = \<lparr>LocalTZA_of_utc = (\<lambda>_. c), LocalTZA_of_local = (\<lambda>_. c)\<rparr>"

subsection \<open>The duration grammar\<close>

text \<open>
  Lines 559 to 579: \<^verbatim>\<open>stringifyDuration\<close>. \<^verbatim>\<open>Math.floor(a / b)\<close> on integers with \<open>b > 0\<close> is \<open>a div b\<close>;
  \<^verbatim>\<open>a % b\<close> is the remainder of the truncated division, which has the sign of \<open>a\<close>.
  \<^verbatim>\<open>Object.entries\<close> lists the units in the order they are written.
\<close>

definition js_rem :: "int \<Rightarrow> int \<Rightarrow> int" where
  "js_rem a b = sgn a * (\<bar>a\<bar> mod \<bar>b\<bar>)"

definition duration_units :: "int \<Rightarrow> (char \<times> int) list" where
  "duration_units seconds =
     [(CHR ''w'', seconds div 604800),
      (CHR ''d'', js_rem seconds 604800 div 86400),
      (CHR ''h'', js_rem seconds 86400 div 3600),
      (CHR ''m'', js_rem seconds 3600 div 60),
      (CHR ''s'', js_rem seconds 60)]"

definition stringifyDuration :: "int \<Rightarrow> string option" where
  "stringifyDuration seconds =
     (if seconds \<le> 0 then None
      else Some (concat (map (\<lambda>(unit, val). number_toString val @ [unit])
                          (filter (\<lambda>(unit, val). val \<noteq> 0) (duration_units seconds)))))"

text \<open>
  Line 508: the regular expression \<^verbatim>\<open>/^(\d+w)?(\d+d)?(\d+h)?(\d+m)?(\d+s)?$/\<close>. Each group is a
  non-empty run of the digits \<^verbatim>\<open>0\<close> to \<^verbatim>\<open>9\<close> followed by one unit letter. A run of digits
  that a group takes is maximal, since the letter after it is not a digit, and a group
  that can match must match: every later group needs another letter at the same place and
  the end anchor needs the end of the string. So the match is found without backtracking:
  \<open>match_group\<close> takes a group when it is there and leaves the string alone when it is
  not; that this agrees with the regular expression is proved below. \<open>match_duration\<close> returns the five captures \<^verbatim>\<open>elements[1]\<close> to
  \<^verbatim>\<open>elements[5]\<close>, or \<open>None\<close> when \<^verbatim>\<open>match\<close> returns \<^verbatim>\<open>null\<close>.
\<close>

definition match_group :: "char \<Rightarrow> string \<Rightarrow> string option \<times> string" where
  "match_group unit s =
     (let ds = takeWhile is_digit s in
      case dropWhile is_digit s of
        [] \<Rightarrow> (None, s)
      | c # rest \<Rightarrow> if ds \<noteq> [] \<and> c = unit then (Some (ds @ [c]), rest) else (None, s))"

definition match_duration :: "string \<Rightarrow> (string option \<times> string option \<times> string option \<times> string option \<times> string option) option" where
  "match_duration duration =
     (let (e1, s1) = match_group (CHR ''w'') duration;
          (e2, s2) = match_group (CHR ''d'') s1;
          (e3, s3) = match_group (CHR ''h'') s2;
          (e4, s4) = match_group (CHR ''m'') s3;
          (e5, s5) = match_group (CHR ''s'') s4
      in if s5 = [] then Some (e1, e2, e3, e4, e5) else None)"

text \<open>
  Lines 515 to 549: one \<^verbatim>\<open>if (elements[i]) { ... }\<close> block of \<^verbatim>\<open>parseNaturalLanguageDuration\<close>: the state is
  the date \<^verbatim>\<open>result\<close> and the flag \<^verbatim>\<open>hasMatch\<close>. A capture is never the empty string, so
  it is truthy exactly when it is present; \<^verbatim>\<open>slice(0, -1)\<close> is \<open>butlast\<close>.
\<close>

definition apply_element :: "(int \<Rightarrow> date \<Rightarrow> date) \<Rightarrow> string option \<Rightarrow> date \<times> bool \<Rightarrow> date \<times> bool" where
  "apply_element setter element st =
     (case element of
        None \<Rightarrow> st
      | Some e \<Rightarrow>
          (let amount = Number_of_digits (butlast e) in
           if amount \<ge> 0 then (setter amount (fst st), True) else st))"

definition parseNaturalLanguageDuration :: "timezone \<Rightarrow> date \<Rightarrow> string \<Rightarrow> date option" where
  "parseNaturalLanguageDuration tz now duration =
     (let st0 = (now, False);
          st5 =
            (case match_duration duration of
               None \<Rightarrow> st0
             | Some (e1, e2, e3, e4, e5) \<Rightarrow>
                 (let st1 = apply_element (\<lambda>weeks. setDate_plus tz (7 * weeks)) e1 st0;
                      st2 = apply_element (setDate_plus tz) e2 st1;
                      st3 = apply_element (setHours_plus tz) e3 st2;
                      st4 = apply_element (setMinutes_plus tz) e4 st3
                  in apply_element (setSeconds_plus tz) e5 st4))
      in if snd st5 then Some (fst st5) else None)"

text \<open>
  Lines 480 to 505: \<^verbatim>\<open>parseDelay\<close>. \<^verbatim>\<open>new Date(value)\<close> on a string never throws, so the \<^verbatim>\<open>catch\<close> branch is
  not reached; the host's date parser is the parameter \<open>Date_parse\<close>, \<open>None\<close> for an
  invalid date. \<^verbatim>\<open>Date.now()\<close> and \<^verbatim>\<open>new Date()\<close> read the same instant \<open>now\<close>.
\<close>

datatype delay_value = DelayString string | DelayDate date

definition parseDelay :: "(string \<Rightarrow> date option) \<Rightarrow> timezone \<Rightarrow> date \<Rightarrow> delay_value option \<Rightarrow> date option" where
  "parseDelay Date_parse tz now v =
     (case v of
        None \<Rightarrow> None
      | Some (DelayDate d) \<Rightarrow> Some d
      | Some (DelayString s) \<Rightarrow>
          if s = [] then None
          else (case Date_parse s of
                  None \<Rightarrow> parseNaturalLanguageDuration tz now s
                | Some d \<Rightarrow> if d \<le> now then None else Some d))"

subsection \<open>The data model\<close>

datatype RuntimeEnvironmentType = DEVELOPMENT | PRODUCTION | STAGING | PREVIEW

record AuthenticatedEnvironment =
  env_id :: string
  env_type :: RuntimeEnvironmentType
  env_projectId :: string
  env_organizationId :: string

text \<open>A value of type \<^verbatim>\<open>any\<close> (the payload, the metadata, the context, a queue config).\<close>

datatype js_any =
    JUndefined
  | JNull
  | JBool bool
  | JNumber int
  | JString string
  | JArray "js_any list"
  | JObject "(string \<times> js_any) list"

fun truthy :: "js_any \<Rightarrow> bool" where
  "truthy JUndefined = False"
| "truthy JNull = False"
| "truthy (JBool b) = b"
| "truthy (JNumber n) = (n \<noteq> 0)"
| "truthy (JString s) = (s \<noteq> [])"
| "truthy (JArray xs) = True"
| "truthy (JObject kvs) = True"

text \<open>A condition \<^verbatim>\<open>x ? ... : ...\<close> on an optional string: present and not empty.\<close>

definition truthy_string :: "string option \<Rightarrow> bool" where
  "truthy_string x = (case x of None \<Rightarrow> False | Some s \<Rightarrow> s \<noteq> [])"

record IOPacket =
  data :: "string option"
  dataType :: string

record QueueOptions =
  q_name :: "string option"
  q_concurrencyLimit :: "int option"

datatype ttl_value = TtlNumber int | TtlString string

datatype tags_value = TagsString string | TagsArray "string list"

record TriggerTaskRequestOptions =
  o_idempotencyKey :: "string option"
  o_delay :: "delay_value option"
  o_ttl :: "ttl_value option"
  o_tags :: "tags_value option"
  o_metadata :: js_any
  o_metadataType :: "string option"
  o_payloadType :: "string option"
  o_concurrencyKey :: "string option"
  o_queue :: "QueueOptions option"
  o_lockToVersion :: "string option"
  o_maxAttempts :: "int option"
  o_test :: "bool option"
  o_dependentAttempt :: "string option"
  o_parentAttempt :: "string option"
  o_dependentBatch :: "string option"
  o_parentBatch :: "string option"

record TriggerTaskRequestBody =
  b_payload :: js_any
  b_context :: js_any
  b_options :: "TriggerTaskRequestOptions option"

text \<open>\<^verbatim>\<open>body.options?.f\<close> for an optional field \<open>f\<close>.\<close>

definition body_option :: "(TriggerTaskRequestOptions \<Rightarrow> 'a option) \<Rightarrow> TriggerTaskRequestBody \<Rightarrow> 'a option" where
  "body_option f body = (case b_options body of None \<Rightarrow> None | Some opts \<Rightarrow> f opts)"

datatype parentAsLinkType = replay | trigger

record TriggerTaskServiceOptions =
  so_idempotencyKey :: "string option"
  so_triggerVersion :: "string option"
  so_traceContext :: "(string \<times> string option) list option"
  so_spanParentAsLink :: "bool option"
  so_parentAsLinkType :: "parentAsLinkType option"
  so_batchId :: "string option"
  so_customIcon :: "string option"

text \<open>
  Rows of the database. A \<open>TaskRun\<close> is the row that \<^verbatim>\<open>taskRun.findUnique\<close> and
  \<^verbatim>\<open>engine.trigger\<close> return and that an attempt joins; statuses are the names of the
  enumeration.
\<close>

record TaskRun =
  tr_id :: string
  tr_friendlyId :: string
  tr_runtimeEnvironmentId :: string
  tr_taskIdentifier :: string
  tr_idempotencyKey :: "string option"
  tr_status :: string
  tr_rootTaskRunId :: "string option"
  tr_depth :: int

record TaskRunAttempt =
  at_friendlyId :: string
  at_status :: string
  at_taskRun :: TaskRun

record BatchTaskRun =
  bt_id :: string
  bt_friendlyId :: string
  bt_status :: string
  bt_dependentTaskAttempt :: "TaskRunAttempt option"

record BackgroundWorker =
  bw_id :: string
  bw_projectId :: string
  bw_runtimeEnvironmentId :: string
  bw_version :: string

record BackgroundWorkerTask =
  bwt_workerId :: string
  bwt_slug :: string
  bwt_queueConfig :: js_any

record TaskRunNumberCounter =
  cn_taskIdentifier :: string
  cn_environmentId :: string
  cn_lastNumber :: int

record database =
  taskRuns :: "TaskRun list"
  taskRunAttempts :: "TaskRunAttempt list"
  batchTaskRuns :: "BatchTaskRun list"
  backgroundWorkers :: "BackgroundWorker list"
  backgroundWorkerTasks :: "BackgroundWorkerTask list"
  taskRunNumberCounters :: "TaskRunNumberCounter list"

text \<open>The \<^verbatim>\<open>findUnique\<close> queries of the source, each on its unique key.\<close>

definition taskRun_findUnique :: "database \<Rightarrow> string \<Rightarrow> string \<Rightarrow> string \<Rightarrow> TaskRun option" where
  "taskRun_findUnique db runtimeEnvironmentId idempotencyKey taskIdentifier =
     find (\<lambda>r. tr_runtimeEnvironmentId r = runtimeEnvironmentId
              \<and> tr_idempotencyKey r = Some idempotencyKey
              \<and> tr_taskIdentifier r = taskIdentifier) (taskRuns db)"

definition taskRunAttempt_findUnique :: "database \<Rightarrow> string \<Rightarrow> TaskRunAttempt option" where
  "taskRunAttempt_findUnique db friendlyId =
     find (\<lambda>a. at_friendlyId a = friendlyId) (taskRunAttempts db)"

definition batchTaskRun_findUnique :: "database \<Rightarrow> string \<Rightarrow> BatchTaskRun option" where
  "batchTaskRun_findUnique db friendlyId =
     find (\<lambda>b. bt_friendlyId b = friendlyId) (batchTaskRuns db)"

definition backgroundWorker_findUnique :: "database \<Rightarrow> string \<Rightarrow> string \<Rightarrow> string \<Rightarrow> BackgroundWorker option" where
  "backgroundWorker_findUnique db projectId runtimeEnvironmentId version =
     find (\<lambda>w. bw_projectId w = projectId \<and> bw_runtimeEnvironmentId w = runtimeEnvironmentId
              \<and> bw_version w = version) (backgroundWorkers db)"

definition backgroundWorkerTask_findUnique :: "database \<Rightarrow> string \<Rightarrow> string \<Rightarrow> BackgroundWorkerTask option" where
  "backgroundWorkerTask_findUnique db workerId slug =
     find (\<lambda>t. bwt_workerId t = workerId \<and> bwt_slug t = slug) (backgroundWorkerTasks db)"

definition taskRunNumberCounter_findUnique :: "database \<Rightarrow> string \<Rightarrow> string \<Rightarrow> TaskRunNumberCounter option" where
  "taskRunNumberCounter_findUnique db taskIdentifier environmentId =
     find (\<lambda>c. cn_taskIdentifier c = taskIdentifier \<and> cn_environmentId c = environmentId)
       (taskRunNumberCounters db)"

text \<open>The argument of \<^verbatim>\<open>engine.trigger\<close>: the shape of the Run to create.\<close>

record TriggerParams =
  p_number :: int
  p_friendlyId :: string
  p_environment :: AuthenticatedEnvironment
  p_idempotencyKey :: "string option"
  p_taskIdentifier :: string
  p_payload :: string
  p_payloadType :: string
  p_context :: js_any
  p_traceContext :: "(string \<times> string option) list"
  p_traceId :: string
  p_spanId :: string
  p_parentSpanId :: "string option"
  p_lockedToVersionId :: "string option"
  p_concurrencyKey :: "string option"
  p_queueName :: string
  p_queue :: "QueueOptions option"
  p_masterQueue :: string
  p_isTest :: bool
  p_delayUntil :: "date option"
  p_queuedAt :: "date option"
  p_maxAttempts :: "int option"
  p_ttl :: "string option"
  p_tags :: "string list"
  p_parentTaskRunId :: "string option"
  p_rootTaskRunId :: "string option"
  p_batchId :: "string option"
  p_resumeParentOnCompletion :: bool
  p_depth :: int
  p_metadata :: "string option"
  p_metadataType :: "string option"
  p_seedMetadata :: "string option"
  p_seedMetadataType :: "string option"

subsection \<open>Collaborators and effects\<close>

text \<open>
  The service reaches everything outside this file through imports whose code is not part
  of the sources at hand. They are parameters of the model, collected in one record: the
  entitlement service, the friendly id generator, the offload predicate and its threshold,
  the two terminal status predicates, the metadata packet helper, the queue name
  sanitizer, the current worker lookup, the tag upsert, the zod parser of a queue config,
  the tracing envelope, the engine, and the host (\<^verbatim>\<open>JSON.stringify\<close>, the date parser, the
  clock and the time zone). Each is a function of its arguments; an outage of a
  collaborator is not modelled, so the only failures are the ones the source raises.
\<close>

record Entitlement =
  hasAccess :: bool

record TaskRunTag =
  tag_id :: string
  tag_name :: string

record TraceEventOptions =
  te_context :: "(string \<times> string option) list option"
  te_spanParentAsLink :: "bool option"
  te_parentAsLinkType :: "parentAsLinkType option"
  te_kind :: string
  te_environment :: AuthenticatedEnvironment
  te_taskSlug :: string
  te_showActions :: bool
  te_icon :: string
  te_runIsTest :: bool
  te_batchId :: "string option"
  te_idempotencyKey :: "string option"
  te_incomplete :: bool
  te_immediate :: bool

text \<open>What the tracing envelope hands to its callback: the event, the trace context and
  the span id of the optional \<^verbatim>\<open>traceparent\<close>.\<close>

record TraceEventHandle =
  ev_traceId :: string
  ev_spanId :: string
  ev_traceContext :: "(string \<times> string option) list"
  ev_traceparent_spanId :: "string option"

record collaborators =
  getEntitlement :: "string \<Rightarrow> Entitlement option"
  generateFriendlyId :: "string \<Rightarrow> string"
  packetRequiresOffloading :: "IOPacket \<Rightarrow> int \<Rightarrow> bool \<times> int"
  TASK_PAYLOAD_OFFLOAD_THRESHOLD :: int
  isFinalAttemptStatus :: "string \<Rightarrow> bool"
  isFinalRunStatus :: "string \<Rightarrow> bool"
  handleMetadataPacket :: "js_any \<Rightarrow> string \<Rightarrow> IOPacket option"
  sanitizeQueueName :: "string \<Rightarrow> string"
  findCurrentWorkerFromEnvironment :: "AuthenticatedEnvironment \<Rightarrow> BackgroundWorker option"
  createTag :: "string \<Rightarrow> string \<Rightarrow> TaskRunTag option"
  QueueOptions_safeParse :: "js_any \<Rightarrow> QueueOptions option option"
  traceEvent :: "string \<Rightarrow> TraceEventOptions \<Rightarrow> TraceEventHandle"
  autoIncrementCounter :: "(string \<times> int) list"
  engine_trigger :: "TriggerParams \<Rightarrow> TaskRun"
  JSON_stringify :: "js_any \<Rightarrow> string option"
  Date_parse :: "string \<Rightarrow> date option"
  clock_now :: date
  host_timezone :: timezone

text \<open>
  Modelled from the spec: the constant \<^verbatim>\<open>MAX_TAGS_PER_RUN\<close> is imported from
  \<^verbatim>\<open>~/models/taskRunTag.server\<close>, which is missing; the spec gives its value, 8.
\<close>

definition MAX_TAGS_PER_RUN :: int where
  "MAX_TAGS_PER_RUN = 8"

text \<open>
  Modelled from the spec: \<^verbatim>\<open>autoIncrementCounter.incrementInTransaction\<close> is imported from
  \<^verbatim>\<open>~/services/autoIncrementCounter.server\<close>, which is missing. By the spec it runs its
  callback once with \<open>num = lastNumber + 1\<close>, and the closure \<^verbatim>\<open>deriveInitial\<close> supplies
  \<open>lastNumber\<close> when the counter of the key is first seeded. This is the number one call
  receives; how concurrent callers are ordered is not part of the model.
\<close>

definition incrementInTransaction_num :: "(string \<times> int) list \<Rightarrow> string \<Rightarrow> int option \<Rightarrow> int" where
  "incrementInTransaction_num counters key initial =
     (case map_of counters key of
        Some lastNumber \<Rightarrow> lastNumber + 1
      | None \<Rightarrow> (case initial of Some lastNumber \<Rightarrow> lastNumber + 1 | None \<Rightarrow> 1))"

text \<open>
  The errors the source throws, and the invocations of collaborators that act on the
  world, in the order they happen. Reads of the database are not recorded; neither are
  \<^verbatim>\<open>logger.debug\<close> and \<^verbatim>\<open>console.log\<close>.
\<close>

datatype error = OutOfEntitlementError | ServiceValidationError string

datatype effect =
    SpanSetAttribute string string
  | GetEntitlement string
  | UploadToObjectStore string string string AuthenticatedEnvironment
  | TraceEvent string TraceEventOptions
  | EventSetAttribute string string
  | IncrementInTransaction string
  | CreateTag string string
  | EngineTrigger TriggerParams

type_synonym 'a outcome = "(error + 'a) \<times> effect list"

text \<open>The effects that happened before a later part of the function ran.\<close>

definition after_effects :: "effect list \<Rightarrow> 'a outcome \<Rightarrow> 'a outcome" where
  "after_effects es out = (fst out, es @ snd out)"

text \<open>Reading the log: the Runs handed to the engine, the uploads, the writes to the
  database (the counter, the tags, the Run), and the calls of the entitlement service and
  of the tracing envelope.\<close>

fun triggered :: "effect list \<Rightarrow> TriggerParams list" where
  "triggered [] = []"
| "triggered (EngineTrigger p # es) = p # triggered es"
| "triggered (e # es) = triggered es"

fun uploads :: "effect list \<Rightarrow> (string \<times> string \<times> string) list" where
  "uploads [] = []"
| "uploads (UploadToObjectStore filename body contentType environment # es) =
     (filename, body, contentType) # uploads es"
| "uploads (e # es) = uploads es"

fun is_database_write :: "effect \<Rightarrow> bool" where
  "is_database_write (IncrementInTransaction key) = True"
| "is_database_write (CreateTag tag projectId) = True"
| "is_database_write (EngineTrigger p) = True"
| "is_database_write e = False"

fun is_entitlement_call :: "effect \<Rightarrow> bool" where
  "is_entitlement_call (GetEntitlement organizationId) = True"
| "is_entitlement_call e = False"

fun is_traceEvent_call :: "effect \<Rightarrow> bool" where
  "is_traceEvent_call (TraceEvent taskId opts) = True"
| "is_traceEvent_call e = False"

fun created_tags :: "effect list \<Rightarrow> string list" where
  "created_tags [] = []"
| "created_tags (CreateTag tag projectId # es) = tag # created_tags es"
| "created_tags (e # es) = created_tags es"

subsection \<open>The payload packet handler\<close>

text \<open>Lines 467 to 477.\<close>

definition createPayloadPacket :: "collaborators \<Rightarrow> js_any \<Rightarrow> string \<Rightarrow> IOPacket" where
  "createPayloadPacket c payload payloadType =
     (if payloadType = ''application/json''
      then \<lparr>data = JSON_stringify c payload, dataType = ''application/json''\<rparr>
      else (case payload of
              JString s \<Rightarrow> \<lparr>data = Some s, dataType = payloadType\<rparr>
            | _ \<Rightarrow> \<lparr>data = None, dataType = payloadType\<rparr>))"

text \<open>Lines 434 to 465: \<^verbatim>\<open>#handlePayloadPacket\<close> returns the packet and the upload it made, if
  any. \<^verbatim>\<open>!packet.data\<close> holds for absent data and for the empty string.\<close>

definition handlePayloadPacket :: "collaborators \<Rightarrow> js_any \<Rightarrow> string \<Rightarrow> string \<Rightarrow> AuthenticatedEnvironment \<Rightarrow> IOPacket \<times> effect list" where
  "handlePayloadPacket c payload payloadType pathPrefix environment =
     (let packet = createPayloadPacket c payload payloadType in
      case data packet of
        None \<Rightarrow> (packet, [])
      | Some d \<Rightarrow>
          if d = [] then (packet, [])
          else
            (let (needsOffloading, size) =
                   packetRequiresOffloading c packet (TASK_PAYLOAD_OFFLOAD_THRESHOLD c)
             in if \<not> needsOffloading then (packet, [])
                else
                  (let filename = pathPrefix @ ''/payload.json''
                   in (\<lparr>data = Some filename, dataType = ''application/store''\<rparr>,
                       [UploadToObjectStore filename d (dataType packet) environment]))))"

subsection \<open>The queue name resolver\<close>

text \<open>Lines 383 to 432.\<close>

definition getQueueName :: "collaborators \<Rightarrow> database \<Rightarrow> string \<Rightarrow> AuthenticatedEnvironment \<Rightarrow> string option \<Rightarrow> string" where
  "getQueueName c db taskId environment queueName =
     (if truthy_string queueName then (case queueName of Some q \<Rightarrow> q | None \<Rightarrow> [])
      else
        (let defaultQueueName = ''task/'' @ taskId in
         case findCurrentWorkerFromEnvironment c environment of
           None \<Rightarrow> defaultQueueName
         | Some worker \<Rightarrow>
             (case backgroundWorkerTask_findUnique db (bw_id worker) taskId of
                None \<Rightarrow> defaultQueueName
              | Some task \<Rightarrow>
                  (case QueueOptions_safeParse c (bwt_queueConfig task) of
                     None \<Rightarrow> defaultQueueName
                   | Some queueConfig \<Rightarrow>
                       (case queueConfig of
                          None \<Rightarrow> defaultQueueName
                        | Some q \<Rightarrow>
                            (case q_name q of None \<Rightarrow> defaultQueueName | Some n \<Rightarrow> n))))))"

subsection \<open>\<^verbatim>\<open>TriggerTaskServiceV2.call\<close>\<close>

text \<open>
  The function is one long body; the model cuts it where it can leave: the normalisation
  and the idempotency gate (\<open>call\<close>), the entitlement check, the tag limit and the payload
  (\<open>call_from_entitlement\<close>), the parent and dependent references
  (\<open>call_from_dependencies\<close>), the tracing and counter envelopes
  (\<open>call_from_traceEvent\<close>) and the callback that assembles the Run and hands it to the
  engine (\<open>trigger_callback\<close>). The constants of the body that a later part closes over
  are its arguments.
\<close>

text \<open>Line 64: \<^verbatim>\<open>options.idempotencyKey ?? body.options?.idempotencyKey\<close>. The operator
  \<^verbatim>\<open>??\<close> falls through on \<^verbatim>\<open>undefined\<close> and \<^verbatim>\<open>null\<close> only, so an empty string of the options wins.\<close>

definition effective_idempotencyKey :: "TriggerTaskServiceOptions \<Rightarrow> TriggerTaskRequestBody \<Rightarrow> string option" where
  "effective_idempotencyKey opts body =
     (case so_idempotencyKey opts of
        Some k \<Rightarrow> Some k
      | None \<Rightarrow> body_option o_idempotencyKey body)"

text \<open>Lines 67 to 70: a number goes through \<^verbatim>\<open>stringifyDuration\<close>, a string is kept, and an
  absent ttl defaults to \<^verbatim>\<open>10m\<close> in a development environment.\<close>

definition normalized_ttl :: "AuthenticatedEnvironment \<Rightarrow> TriggerTaskRequestBody \<Rightarrow> string option" where
  "normalized_ttl environment body =
     (case body_option o_ttl body of
        Some (TtlNumber n) \<Rightarrow> stringifyDuration n
      | Some (TtlString s) \<Rightarrow> Some s
      | None \<Rightarrow> if env_type environment = DEVELOPMENT then Some ''10m'' else None)"

text \<open>Lines 72 to 82: \<^verbatim>\<open>idempotencyKey ? findUnique(...) : undefined\<close>. The condition is the
  truthiness of the key, so the table is not read for an absent or an empty key.\<close>

definition find_existingRun :: "database \<Rightarrow> AuthenticatedEnvironment \<Rightarrow> string \<Rightarrow> string option \<Rightarrow> TaskRun option" where
  "find_existingRun db environment taskId idempotencyKey =
     (case idempotencyKey of
        None \<Rightarrow> None
      | Some k \<Rightarrow> if k = [] then None else taskRun_findUnique db (env_id environment) k taskId)"

text \<open>Lines 90 to 95: outside development, \<^verbatim>\<open>result && result.hasAccess === false\<close> throws
  \<^verbatim>\<open>OutOfEntitlementError\<close>.\<close>

definition entitlement_denied :: "collaborators \<Rightarrow> AuthenticatedEnvironment \<Rightarrow> bool" where
  "entitlement_denied c environment =
     (env_type environment \<noteq> DEVELOPMENT \<and>
      (case getEntitlement c (env_organizationId environment) of
         None \<Rightarrow> False
       | Some result \<Rightarrow> hasAccess result = False))"

text \<open>Lines 97 to 105: the tag limit applies to an array, not to a single string; the
  message is the template literal of line 103.\<close>

definition tags_error :: "TriggerTaskRequestBody \<Rightarrow> error option" where
  "tags_error body =
     (case body_option o_tags body of
        None \<Rightarrow> None
      | Some (TagsString s) \<Rightarrow> None
      | Some (TagsArray ts) \<Rightarrow>
          if int (length ts) > MAX_TAGS_PER_RUN
          then Some (ServiceValidationError
                 (''Runs can only have '' @ number_toString MAX_TAGS_PER_RUN
                  @ '' tags, you're trying to set '' @ number_toString (int (length ts)) @ ''.''))
          else None)"

text \<open>Lines 123, 160, 177 and 221: \<^verbatim>\<open>body.options?.ref ? findUnique({ where: { friendlyId: ref } }) : undefined\<close>.
  A reference by friendly id is looked up when it is present and not empty, and
  \<^verbatim>\<open>findUnique\<close> returns \<^verbatim>\<open>null\<close> when no row has it.\<close>

definition find_attempt :: "database \<Rightarrow> string option \<Rightarrow> TaskRunAttempt option" where
  "find_attempt db friendlyId =
     (case friendlyId of
        None \<Rightarrow> None
      | Some f \<Rightarrow> if f = [] then None else taskRunAttempt_findUnique db f)"

definition find_batch :: "database \<Rightarrow> string option \<Rightarrow> BatchTaskRun option" where
  "find_batch db friendlyId =
     (case friendlyId of
        None \<Rightarrow> None
      | Some f \<Rightarrow> if f = [] then None else batchTaskRun_findUnique db f)"

text \<open>Lines 140 to 158 and 198 to 219: the terminal state gate, written twice in the
  source with the same two messages, for the dependent attempt and for the dependent
  attempt of the dependent batch.\<close>

definition terminal_state_error :: "collaborators \<Rightarrow> string \<Rightarrow> TaskRunAttempt \<Rightarrow> error option" where
  "terminal_state_error c taskId attempt =
     (if isFinalAttemptStatus c (at_status attempt)
         \<or> isFinalRunStatus c (tr_status (at_taskRun attempt))
      then
        (if isFinalAttemptStatus c (at_status attempt)
         then Some (ServiceValidationError
                (''Cannot trigger '' @ taskId @ '' as the parent attempt has a status of ''
                 @ at_status attempt))
         else Some (ServiceValidationError
                (''Cannot trigger '' @ taskId @ '' as the parent run has a status of ''
                 @ tr_status (at_taskRun attempt))))
      else None)"

text \<open>Lines 294 and 295: \<^verbatim>\<open>typeof tags === "string" ? [tags] : tags\<close>.\<close>

definition bodyTags :: "TriggerTaskRequestBody \<Rightarrow> string list option" where
  "bodyTags body =
     (case body_option o_tags body of
        None \<Rightarrow> None
      | Some (TagsString s) \<Rightarrow> Some [s]
      | Some (TagsArray ts) \<Rightarrow> Some ts)"

text \<open>Lines 296 to 306: the loop over \<^verbatim>\<open>bodyTags\<close>, giving the ids of the tag records that
  \<^verbatim>\<open>createTag\<close> returned and the upserts made, in order.\<close>

fun createTags :: "collaborators \<Rightarrow> string \<Rightarrow> string list \<Rightarrow> string list \<times> effect list" where
  "createTags c projectId [] = ([], [])"
| "createTags c projectId (tag # tags) =
     (let (tagIds, es) = createTags c projectId tags
      in ((case createTag c tag projectId of
             None \<Rightarrow> tagIds
           | Some tagRecord \<Rightarrow> tag_id tagRecord # tagIds),
          CreateTag tag projectId # es))"

text \<open>Lines 308 to 314.\<close>

definition run_depth :: "TaskRunAttempt option \<Rightarrow> TaskRunAttempt option \<Rightarrow> BatchTaskRun option \<Rightarrow> int" where
  "run_depth dependentAttempt parentAttempt dependentBatchRun =
     (case dependentAttempt of
        Some a \<Rightarrow> tr_depth (at_taskRun a) + 1
      | None \<Rightarrow>
          (case parentAttempt of
             Some a \<Rightarrow> tr_depth (at_taskRun a) + 1
           | None \<Rightarrow>
               (case dependentBatchRun of
                  None \<Rightarrow> 0
                | Some b \<Rightarrow>
                    (case bt_dependentTaskAttempt b of
                       Some a \<Rightarrow> tr_depth (at_taskRun a) + 1
                     | None \<Rightarrow> 0))))"

text \<open>Lines 361 to 373: the closure that reads \<^verbatim>\<open>lastNumber\<close> of the counter row.\<close>

definition deriveInitial :: "database \<Rightarrow> string \<Rightarrow> AuthenticatedEnvironment \<Rightarrow> int option" where
  "deriveInitial db taskId environment =
     (case taskRunNumberCounter_findUnique db taskId (env_id environment) of
        None \<Rightarrow> None
      | Some counter \<Rightarrow> Some (cn_lastNumber counter))"

text \<open>Lines 320 to 355: the object that the callback passes to \<^verbatim>\<open>engine.trigger\<close>, as a
  function of the constants in scope.\<close>

definition trigger_params ::
  "collaborators \<Rightarrow> string \<Rightarrow> AuthenticatedEnvironment \<Rightarrow> TriggerTaskRequestBody
   \<Rightarrow> TriggerTaskServiceOptions \<Rightarrow> string option \<Rightarrow> date option \<Rightarrow> string option \<Rightarrow> string
   \<Rightarrow> IOPacket \<Rightarrow> IOPacket option \<Rightarrow> TaskRunAttempt option \<Rightarrow> TaskRunAttempt option
   \<Rightarrow> BatchTaskRun option \<Rightarrow> BatchTaskRun option \<Rightarrow> TraceEventHandle \<Rightarrow> int
   \<Rightarrow> BackgroundWorker option \<Rightarrow> string \<Rightarrow> string list \<Rightarrow> int \<Rightarrow> TriggerParams" where
  "trigger_params c taskId environment body opts idempotencyKey delayUntil ttl runFriendlyId
     payloadPacket metadataPacket dependentAttempt parentAttempt dependentBatchRun parentBatchRun
     event num lockedToBackgroundWorker queueName tagIds depth =
     \<lparr>p_number = num,
      p_friendlyId = runFriendlyId,
      p_environment = environment,
      p_idempotencyKey = idempotencyKey,
      p_taskIdentifier = taskId,
      p_payload = (case data payloadPacket of None \<Rightarrow> [] | Some d \<Rightarrow> d),
      p_payloadType = dataType payloadPacket,
      p_context = b_context body,
      p_traceContext = ev_traceContext event,
      p_traceId = ev_traceId event,
      p_spanId = ev_spanId event,
      p_parentSpanId =
        (if so_parentAsLinkType opts = Some replay then None else ev_traceparent_spanId event),
      p_lockedToVersionId =
        (case lockedToBackgroundWorker of None \<Rightarrow> None | Some w \<Rightarrow> Some (bw_id w)),
      p_concurrencyKey = body_option o_concurrencyKey body,
      p_queueName = queueName,
      p_queue = body_option o_queue body,
      p_masterQueue = ''main'',
      p_isTest = (case body_option o_test body of None \<Rightarrow> False | Some t \<Rightarrow> t),
      p_delayUntil = delayUntil,
      p_queuedAt = (case delayUntil of Some d \<Rightarrow> None | None \<Rightarrow> Some (clock_now c)),
      p_maxAttempts = body_option o_maxAttempts body,
      p_ttl = ttl,
      p_tags = tagIds,
      p_parentTaskRunId =
        (case parentAttempt of None \<Rightarrow> None | Some a \<Rightarrow> Some (tr_id (at_taskRun a))),
      p_rootTaskRunId =
        (case parentAttempt of
           None \<Rightarrow> None
         | Some a \<Rightarrow>
             (case tr_rootTaskRunId (at_taskRun a) of
                Some r \<Rightarrow> Some r
              | None \<Rightarrow> Some (tr_id (at_taskRun a)))),
      p_batchId =
        (case dependentBatchRun of
           Some b \<Rightarrow> Some (bt_id b)
         | None \<Rightarrow> (case parentBatchRun of None \<Rightarrow> None | Some b \<Rightarrow> Some (bt_id b))),
      p_resumeParentOnCompletion =
        (case dependentAttempt of
           Some a \<Rightarrow> True
         | None \<Rightarrow> (case dependentBatchRun of Some b \<Rightarrow> True | None \<Rightarrow> False)),
      p_depth = depth,
      p_metadata = (case metadataPacket of None \<Rightarrow> None | Some m \<Rightarrow> data m),
      p_metadataType = (case metadataPacket of None \<Rightarrow> None | Some m \<Rightarrow> Some (dataType m)),
      p_seedMetadata = (case metadataPacket of None \<Rightarrow> None | Some m \<Rightarrow> data m),
      p_seedMetadataType =
        (case metadataPacket of None \<Rightarrow> None | Some m \<Rightarrow> Some (dataType m))\<rparr>"

text \<open>Lines 267 to 360: the callback of the counter envelope.\<close>

definition trigger_callback ::
  "collaborators \<Rightarrow> database \<Rightarrow> string \<Rightarrow> AuthenticatedEnvironment \<Rightarrow> TriggerTaskRequestBody
   \<Rightarrow> TriggerTaskServiceOptions \<Rightarrow> string option \<Rightarrow> date option \<Rightarrow> string option \<Rightarrow> string
   \<Rightarrow> IOPacket \<Rightarrow> IOPacket option \<Rightarrow> TaskRunAttempt option \<Rightarrow> TaskRunAttempt option
   \<Rightarrow> BatchTaskRun option \<Rightarrow> BatchTaskRun option \<Rightarrow> TraceEventHandle \<Rightarrow> int
   \<Rightarrow> TaskRun \<times> effect list" where
  "trigger_callback c db taskId environment body opts idempotencyKey delayUntil ttl runFriendlyId
     payloadPacket metadataPacket dependentAttempt parentAttempt dependentBatchRun parentBatchRun
     event num =
     (let lockedToBackgroundWorker =
            (case body_option o_lockToVersion body of
               None \<Rightarrow> None
             | Some v \<Rightarrow>
                 if v = [] then None
                 else backgroundWorker_findUnique db (env_projectId environment)
                        (env_id environment) v);
          queueName0 =
            sanitizeQueueName c
              (getQueueName c db taskId environment
                 (case body_option o_queue body of None \<Rightarrow> None | Some q \<Rightarrow> q_name q));
          queueName =
            (if queueName0 = [] then sanitizeQueueName c (''task/'' @ taskId) else queueName0);
          (tagIds, tagEffects) =
            createTags c (env_projectId environment)
              (case bodyTags body of None \<Rightarrow> [] | Some ts \<Rightarrow> ts);
          depth = run_depth dependentAttempt parentAttempt dependentBatchRun;
          params =
            trigger_params c taskId environment body opts idempotencyKey delayUntil ttl
              runFriendlyId payloadPacket metadataPacket dependentAttempt parentAttempt
              dependentBatchRun parentBatchRun event num lockedToBackgroundWorker queueName
              tagIds depth
      in (engine_trigger c params,
          [EventSetAttribute ''queueName'' queueName, SpanSetAttribute ''queueName'' queueName]
          @ tagEffects
          @ [EventSetAttribute ''runId'' runFriendlyId, SpanSetAttribute ''runId'' runFriendlyId,
             EngineTrigger params]))"

text \<open>Lines 241 to 379: the tracing envelope and, inside it, the counter envelope.\<close>

definition call_from_traceEvent ::
  "collaborators \<Rightarrow> database \<Rightarrow> string \<Rightarrow> AuthenticatedEnvironment \<Rightarrow> TriggerTaskRequestBody
   \<Rightarrow> TriggerTaskServiceOptions \<Rightarrow> string option \<Rightarrow> date option \<Rightarrow> string option \<Rightarrow> string
   \<Rightarrow> IOPacket \<Rightarrow> IOPacket option \<Rightarrow> TaskRunAttempt option \<Rightarrow> TaskRunAttempt option
   \<Rightarrow> BatchTaskRun option \<Rightarrow> BatchTaskRun option \<Rightarrow> TaskRun outcome" where
  "call_from_traceEvent c db taskId environment body opts idempotencyKey delayUntil ttl
     runFriendlyId payloadPacket metadataPacket dependentAttempt parentAttempt dependentBatchRun
     parentBatchRun =
     (let eventOptions =
            \<lparr>te_context = so_traceContext opts,
             te_spanParentAsLink = so_spanParentAsLink opts,
             te_parentAsLinkType = so_parentAsLinkType opts,
             te_kind = ''SERVER'',
             te_environment = environment,
             te_taskSlug = taskId,
             te_showActions = True,
             te_icon = (case so_customIcon opts of None \<Rightarrow> ''task'' | Some i \<Rightarrow> i),
             te_runIsTest = (case body_option o_test body of None \<Rightarrow> False | Some t \<Rightarrow> t),
             te_batchId = so_batchId opts,
             te_idempotencyKey = idempotencyKey,
             te_incomplete = True,
             te_immediate = True\<rparr>;
          event = traceEvent c taskId eventOptions;
          key = ''v3-run:'' @ env_id environment @ '':'' @ taskId;
          num = incrementInTransaction_num (autoIncrementCounter c) key
                  (deriveInitial db taskId environment);
          (run, es) =
            trigger_callback c db taskId environment body opts idempotencyKey delayUntil ttl
              runFriendlyId payloadPacket metadataPacket dependentAttempt parentAttempt
              dependentBatchRun parentBatchRun event num
      in (Inr run, [TraceEvent taskId eventOptions, IncrementInTransaction key] @ es))"

text \<open>Lines 123 to 239: the four references and the two terminal state gates. The parent
  attempt and the dependent batch are read before the second gate, the parent batch
  after it.\<close>

definition call_from_dependencies ::
  "collaborators \<Rightarrow> database \<Rightarrow> string \<Rightarrow> AuthenticatedEnvironment \<Rightarrow> TriggerTaskRequestBody
   \<Rightarrow> TriggerTaskServiceOptions \<Rightarrow> string option \<Rightarrow> date option \<Rightarrow> string option \<Rightarrow> string
   \<Rightarrow> IOPacket \<Rightarrow> IOPacket option \<Rightarrow> TaskRun outcome" where
  "call_from_dependencies c db taskId environment body opts idempotencyKey delayUntil ttl
     runFriendlyId payloadPacket metadataPacket =
     (let dependentAttempt = find_attempt db (body_option o_dependentAttempt body) in
      case (case dependentAttempt of None \<Rightarrow> None | Some a \<Rightarrow> terminal_state_error c taskId a) of
        Some e \<Rightarrow> (Inl e, [])
      | None \<Rightarrow>
          (let parentAttempt = find_attempt db (body_option o_parentAttempt body);
               dependentBatchRun = find_batch db (body_option o_dependentBatch body)
           in case (case dependentBatchRun of
                      None \<Rightarrow> None
                    | Some b \<Rightarrow>
                        (case bt_dependentTaskAttempt b of
                           None \<Rightarrow> None
                         | Some a \<Rightarrow> terminal_state_error c taskId a)) of
                Some e \<Rightarrow> (Inl e, [])
              | None \<Rightarrow>
                  (let parentBatchRun = find_batch db (body_option o_parentBatch body)
                   in call_from_traceEvent c db taskId environment body opts idempotencyKey
                        delayUntil ttl runFriendlyId payloadPacket metadataPacket
                        dependentAttempt parentAttempt dependentBatchRun parentBatchRun)))"

text \<open>Line 111: \<^verbatim>\<open>body.options?.payloadType ?? "application/json"\<close>.\<close>

definition body_payloadType :: "TriggerTaskRequestBody \<Rightarrow> string" where
  "body_payloadType body =
     (case body_option o_payloadType body of None \<Rightarrow> ''application/json'' | Some t \<Rightarrow> t)"

text \<open>Lines 116 to 121.\<close>

definition body_metadataPacket :: "collaborators \<Rightarrow> TriggerTaskRequestBody \<Rightarrow> IOPacket option" where
  "body_metadataPacket c body =
     (let metadata = (case b_options body of None \<Rightarrow> JUndefined | Some os \<Rightarrow> o_metadata os)
      in if truthy metadata
         then handleMetadataPacket c metadata
                (case body_option o_metadataType body of
                   None \<Rightarrow> ''application/json''
                 | Some t \<Rightarrow> t)
         else None)"

text \<open>The entitlement service is asked outside of development environments only.\<close>

definition entitlement_effects :: "AuthenticatedEnvironment \<Rightarrow> effect list" where
  "entitlement_effects environment =
     (if env_type environment \<noteq> DEVELOPMENT
      then [GetEntitlement (env_organizationId environment)] else [])"

text \<open>Lines 90 to 121: the entitlement check, the tag limit, the friendly id and the
  payload and metadata packets, in this order.\<close>

definition call_from_entitlement ::
  "collaborators \<Rightarrow> database \<Rightarrow> string \<Rightarrow> AuthenticatedEnvironment \<Rightarrow> TriggerTaskRequestBody
   \<Rightarrow> TriggerTaskServiceOptions \<Rightarrow> string option \<Rightarrow> date option \<Rightarrow> string option
   \<Rightarrow> TaskRun outcome" where
  "call_from_entitlement c db taskId environment body opts idempotencyKey delayUntil ttl =
     (if entitlement_denied c environment
      then (Inl OutOfEntitlementError, entitlement_effects environment)
      else
        (case tags_error body of
           Some e \<Rightarrow> (Inl e, entitlement_effects environment)
         | None \<Rightarrow>
             (let runFriendlyId = generateFriendlyId c ''run'';
                  (payloadPacket, uploadEffects) =
                    handlePayloadPacket c (b_payload body) (body_payloadType body)
                      runFriendlyId environment;
                  metadataPacket = body_metadataPacket c body
              in after_effects (entitlement_effects environment @ uploadEffects)
                   (call_from_dependencies c db taskId environment body opts idempotencyKey
                      delayUntil ttl runFriendlyId payloadPacket metadataPacket))))"

text \<open>Lines 61 to 88: the span attribute, the normalisation and the idempotency gate.\<close>

definition call ::
  "collaborators \<Rightarrow> database \<Rightarrow> string \<Rightarrow> AuthenticatedEnvironment \<Rightarrow> TriggerTaskRequestBody
   \<Rightarrow> TriggerTaskServiceOptions \<Rightarrow> TaskRun outcome" where
  "call c db taskId environment body opts =
     (let idempotencyKey = effective_idempotencyKey opts body;
          delayUntil = parseDelay (Date_parse c) (host_timezone c) (clock_now c)
                         (body_option o_delay body);
          ttl = normalized_ttl environment body;
          existingRun = find_existingRun db environment taskId idempotencyKey
      in after_effects [SpanSetAttribute ''taskId'' taskId]
           (case existingRun of
              Some run \<Rightarrow> (Inr run, [SpanSetAttribute ''runId'' (tr_friendlyId run)])
            | None \<Rightarrow>
                call_from_entitlement c db taskId environment body opts idempotencyKey
                  delayUntil ttl))"

subsection \<open>Notions used in the statements and proofs\<close>

text \<open>The piece of a duration string that one unit contributes, and the capture that the
  regular expression returns for it.\<close>

definition unit_part :: "char \<Rightarrow> int \<Rightarrow> string" where
  "unit_part u v = (if v \<noteq> 0 then number_toString v @ [u] else [])"

definition element_of :: "char \<Rightarrow> int \<Rightarrow> string option" where
  "element_of u v = (if v \<noteq> 0 then Some (show_nat (nat v) @ [u]) else None)"

text \<open>A string that is empty or starts with a numeral followed by a letter of \<open>L\<close>.\<close>

definition dur_tail :: "char set \<Rightarrow> string \<Rightarrow> bool" where
  "dur_tail L s = (s = [] \<or> (\<exists>n c rest. s = show_nat n @ c # rest \<and> c \<in> L))"

text \<open>
  What the regular expression denotes: a string matches with the captures
  \<open>(e1, e2, e3, e4, e5)\<close> when it is the concatenation of the groups that are present, in
  order, each a non-empty run of digits followed by its unit letter.
\<close>

definition group_match :: "char \<Rightarrow> string option \<Rightarrow> bool" where
  "group_match u e =
     (case e of
        None \<Rightarrow> True
      | Some g \<Rightarrow> (\<exists>ds. ds \<noteq> [] \<and> (\<forall>c \<in> set ds. is_digit c) \<and> g = ds @ [u]))"

definition group_text :: "string option \<Rightarrow> string" where
  "group_text e = (case e of None \<Rightarrow> [] | Some g \<Rightarrow> g)"

definition regex_match :: "string \<Rightarrow> string option \<times> string option \<times> string option \<times> string option \<times> string option \<Rightarrow> bool" where
  "regex_match s es =
     (case es of (e1, e2, e3, e4, e5) \<Rightarrow>
        group_match (CHR ''w'') e1 \<and> group_match (CHR ''d'') e2 \<and> group_match (CHR ''h'') e3
        \<and> group_match (CHR ''m'') e4 \<and> group_match (CHR ''s'') e5
        \<and> s = group_text e1 @ group_text e2 @ group_text e3 @ group_text e4 @ group_text e5)"

text \<open>A string that is empty or starts with a run of digits followed by a letter of \<open>L\<close>.\<close>

definition groups_tail :: "char set \<Rightarrow> string \<Rightarrow> bool" where
  "groups_tail L s =
     (s = [] \<or> (\<exists>ds c rest. s = ds @ c # rest \<and> (\<forall>x \<in> set ds. is_digit x) \<and> c \<in> L))"

text \<open>The attempt is in a terminal state: its own status or the status of its run.\<close>

definition terminal_attempt :: "collaborators \<Rightarrow> TaskRunAttempt \<Rightarrow> bool" where
  "terminal_attempt c a =
     (isFinalAttemptStatus c (at_status a) \<or> isFinalRunStatus c (tr_status (at_taskRun a)))"

text \<open>The error of the gate on the dependent attempt, and of the gate on the dependent
  attempt of the dependent batch, as \<open>call_from_dependencies\<close> computes them.\<close>

definition dependentAttempt_error :: "collaborators \<Rightarrow> database \<Rightarrow> string \<Rightarrow> TriggerTaskRequestBody \<Rightarrow> error option" where
  "dependentAttempt_error c db taskId body =
     (case find_attempt db (body_option o_dependentAttempt body) of
        None \<Rightarrow> None
      | Some a \<Rightarrow> terminal_state_error c taskId a)"

definition dependentBatch_error :: "collaborators \<Rightarrow> database \<Rightarrow> string \<Rightarrow> TriggerTaskRequestBody \<Rightarrow> error option" where
  "dependentBatch_error c db taskId body =
     (case find_batch db (body_option o_dependentBatch body) of
        None \<Rightarrow> None
      | Some b \<Rightarrow>
          (case bt_dependentTaskAttempt b of
             None \<Rightarrow> None
           | Some a \<Rightarrow> terminal_state_error c taskId a))"

text \<open>The fields of a Run handed to the engine that the statements below are about, in
  terms of the constants of \<open>call\<close> they are computed from.\<close>

definition created_as :: "TriggerParams \<Rightarrow> string option \<Rightarrow> string \<Rightarrow> IOPacket
   \<Rightarrow> TaskRunAttempt option \<Rightarrow> TaskRunAttempt option \<Rightarrow> BatchTaskRun option \<Rightarrow> bool" where
  "created_as p ttl runFriendlyId payloadPacket dependentAttempt parentAttempt dependentBatchRun =
     (p_friendlyId p = runFriendlyId
      \<and> p_ttl p = ttl
      \<and> p_payload p = (case data payloadPacket of None \<Rightarrow> [] | Some d \<Rightarrow> d)
      \<and> p_payloadType p = dataType payloadPacket
      \<and> p_depth p = run_depth dependentAttempt parentAttempt dependentBatchRun
      \<and> p_resumeParentOnCompletion p = (dependentAttempt \<noteq> None \<or> dependentBatchRun \<noteq> None))"

text \<open>The attempt that stops the request: the dependent attempt when it resolves to a
  terminal attempt, else the dependent attempt of the dependent batch when that is
  terminal; and the message of the validation error for it.\<close>

definition dependent_terminal_attempt :: "collaborators \<Rightarrow> database \<Rightarrow> TriggerTaskRequestBody \<Rightarrow> TaskRunAttempt option" where
  "dependent_terminal_attempt c db body =
     (let of_batch =
            (case find_batch db (body_option o_dependentBatch body) of
               None \<Rightarrow> None
             | Some b \<Rightarrow>
                 (case bt_dependentTaskAttempt b of
                    None \<Rightarrow> None
                  | Some a \<Rightarrow> if terminal_attempt c a then Some a else None))
      in case find_attempt db (body_option o_dependentAttempt body) of
           None \<Rightarrow> of_batch
         | Some a \<Rightarrow> if terminal_attempt c a then Some a else of_batch)"

definition terminal_message :: "collaborators \<Rightarrow> string \<Rightarrow> TaskRunAttempt \<Rightarrow> string" where
  "terminal_message c taskId a =
     (if isFinalAttemptStatus c (at_status a)
      then ''Cannot trigger '' @ taskId @ '' as the parent attempt has a status of '' @ at_status a
      else ''Cannot trigger '' @ taskId @ '' as the parent run has a status of ''
           @ tr_status (at_taskRun a))"

text \<open>The composition \<^verbatim>\<open>parseNaturalLanguageDuration(stringifyDuration(n))\<close>.\<close>

definition duration_round_trip :: "timezone \<Rightarrow> date \<Rightarrow> int \<Rightarrow> date option" where
  "duration_round_trip tz now n =
     (case stringifyDuration n of
        None \<Rightarrow> None
      | Some s \<Rightarrow> parseNaturalLanguageDuration tz now s)"

text \<open>
  The local time of the host keeps the offset \<open>c\<close> over the time values from \<open>lo\<close> to
  \<open>hi\<close>: at every time value of the range, and at every local time value that a time
  value of the range has.
\<close>

definition offset_constant :: "timezone \<Rightarrow> int \<Rightarrow> date \<Rightarrow> date \<Rightarrow> bool" where
  "offset_constant tz c lo hi =
     ((\<forall>t. lo \<le> t \<and> t \<le> hi \<longrightarrow> LocalTZA_of_utc tz t = c)
      \<and> (\<forall>l. lo + c \<le> l \<and> l \<le> hi + c \<longrightarrow> LocalTZA_of_local tz l = c))"


subsection \<open>An example world\<close>

text \<open>Concrete collaborators, a small database and requests, on which the theorems below
  are instantiated.\<close>

definition example_environment :: "RuntimeEnvironmentType \<Rightarrow> AuthenticatedEnvironment" where
  "example_environment t =
     \<lparr>env_id = ''env_1'', env_type = t, env_projectId = ''proj_1'', env_organizationId = ''org_1''\<rparr>"

definition example_collaborators :: "bool \<Rightarrow> collaborators" where
  "example_collaborators access =
     \<lparr>getEntitlement = (\<lambda>organizationId. Some \<lparr>hasAccess = access\<rparr>),
      generateFriendlyId = (\<lambda>prefix. prefix @ ''_new''),
      packetRequiresOffloading =
        (\<lambda>packet threshold.
           (case data packet of
              None \<Rightarrow> (False, 0)
            | Some d \<Rightarrow> (int (length d) > threshold, int (length d)))),
      TASK_PAYLOAD_OFFLOAD_THRESHOLD = 8,
      isFinalAttemptStatus = (\<lambda>s. s \<in> set [''FAILED'', ''CANCELED'', ''COMPLETED'']),
      isFinalRunStatus =
        (\<lambda>s. s \<in> set [''CANCELED'', ''COMPLETED_SUCCESSFULLY'', ''SYSTEM_FAILURE'']),
      handleMetadataPacket = (\<lambda>metadata metadataType. None),
      sanitizeQueueName = (\<lambda>name. name),
      findCurrentWorkerFromEnvironment = (\<lambda>environment. None),
      createTag = (\<lambda>tag projectId. Some \<lparr>tag_id = ''tag_'' @ tag, tag_name = tag\<rparr>),
      QueueOptions_safeParse = (\<lambda>config. None),
      traceEvent =
        (\<lambda>taskId opts.
           \<lparr>ev_traceId = ''trace_1'', ev_spanId = ''span_1'', ev_traceContext = [],
            ev_traceparent_spanId = None\<rparr>),
      autoIncrementCounter = [],
      engine_trigger =
        (\<lambda>p. \<lparr>tr_id = ''id_'' @ p_friendlyId p, tr_friendlyId = p_friendlyId p,
              tr_runtimeEnvironmentId = env_id (p_environment p),
              tr_taskIdentifier = p_taskIdentifier p, tr_idempotencyKey = p_idempotencyKey p,
              tr_status = ''PENDING'', tr_rootTaskRunId = p_rootTaskRunId p,
              tr_depth = p_depth p\<rparr>),
      JSON_stringify =
        (\<lambda>v. case v of JString s \<Rightarrow> Some (CHR 0x22 # s @ [CHR 0x22]) | _ \<Rightarrow> Some ''{}''),
      Date_parse = (\<lambda>s. None),
      clock_now = 1000,
      host_timezone = fixed_offset 0\<rparr>"

definition example_run :: "string \<Rightarrow> string option \<Rightarrow> string \<Rightarrow> int \<Rightarrow> TaskRun" where
  "example_run friendlyId idempotencyKey status depth =
     \<lparr>tr_id = ''id_'' @ friendlyId, tr_friendlyId = friendlyId, tr_runtimeEnvironmentId = ''env_1'',
      tr_taskIdentifier = ''my-task'', tr_idempotencyKey = idempotencyKey, tr_status = status,
      tr_rootTaskRunId = None, tr_depth = depth\<rparr>"

definition example_attempt :: "string \<Rightarrow> string \<Rightarrow> TaskRunAttempt" where
  "example_attempt friendlyId status =
     \<lparr>at_friendlyId = friendlyId, at_status = status,
      at_taskRun = example_run ''run_c'' None ''EXECUTING'' 2\<rparr>"

definition example_database :: database where
  "example_database =
     \<lparr>taskRuns = [example_run ''run_a'' (Some ''abc'') ''EXECUTING'' 0,
                  example_run ''run_b'' (Some []) ''EXECUTING'' 0,
                  example_run ''run_c'' None ''EXECUTING'' 2],
      taskRunAttempts =
        [example_attempt ''attempt_failed'' ''FAILED'',
         example_attempt ''attempt_live'' ''EXECUTING''],
      batchTaskRuns =
        [\<lparr>bt_id = ''id_batch_1'', bt_friendlyId = ''batch_1'', bt_status = ''PENDING'',
          bt_dependentTaskAttempt = None\<rparr>,
         \<lparr>bt_id = ''id_batch_2'', bt_friendlyId = ''batch_2'', bt_status = ''PENDING'',
          bt_dependentTaskAttempt = Some (example_attempt ''attempt_failed'' ''FAILED'')\<rparr>],
      backgroundWorkers = [],
      backgroundWorkerTasks = [],
      taskRunNumberCounters = []\<rparr>"

definition no_options :: TriggerTaskRequestOptions where
  "no_options =
     \<lparr>o_idempotencyKey = None, o_delay = None, o_ttl = None, o_tags = None,
      o_metadata = JUndefined, o_metadataType = None, o_payloadType = None,
      o_concurrencyKey = None, o_queue = None, o_lockToVersion = None, o_maxAttempts = None,
      o_test = None, o_dependentAttempt = None, o_parentAttempt = None,
      o_dependentBatch = None, o_parentBatch = None\<rparr>"

definition example_body :: "string \<Rightarrow> TriggerTaskRequestOptions \<Rightarrow> TriggerTaskRequestBody" where
  "example_body p os = \<lparr>b_payload = JString p, b_context = JUndefined, b_options = Some os\<rparr>"

definition service_options :: "string option \<Rightarrow> TriggerTaskServiceOptions" where
  "service_options idempotencyKey =
     \<lparr>so_idempotencyKey = idempotencyKey, so_triggerVersion = None, so_traceContext = None,
      so_spanParentAsLink = None, so_parentAsLinkType = None, so_batchId = None,
      so_customIcon = None\<rparr>"

text \<open>
  A host on Central European time around the change to summer time of 29 March 2026,
  01:00 UTC (time value 1774746000000): one hour ahead of UTC before it, two hours after
  it. A local time that the change skips is read with the offset before the change.
\<close>

definition example_summer_timezone :: timezone where
  "example_summer_timezone =
     \<lparr>LocalTZA_of_utc = (\<lambda>t. if t < 1774746000000 then 3600000 else 7200000),
      LocalTZA_of_local = (\<lambda>l. if l < 1774746000000 + 7200000 then 3600000 else 7200000)\<rparr>"

section \<open>The duration grammar: printing and parsing\<close>

subsection \<open>Numerals\<close>

declare show_nat.simps [simp del]

lemma digit_char_is_digit: "is_digit (digit_char d)"
proof -
  have "k \<in> {0,1,2,3,4,5,6,7,8,9}" if "k < 10" for k :: nat
    using that by (simp; arith)
  then have "d mod 10 \<in> {0,1,2,3,4,5,6,7,8,9}" by simp
  then show ?thesis
    by (auto simp: is_digit_def digit_char_def digit_chars_def)
qed

lemma digit_val_digit_char: "d < 10 \<Longrightarrow> digit_val (digit_char d) = d"
proof -
  assume "d < 10"
  then have "d \<in> {0,1,2,3,4,5,6,7,8,9}" by (simp; arith)
  then show ?thesis
    by (auto simp: digit_val_def digit_char_def digit_chars_def)
qed

lemma show_nat_digits: "\<forall>c \<in> set (show_nat n). is_digit c"
proof (induction n rule: show_nat.induct)
  case (1 n)
  show ?case
  proof (cases "n < 10")
    case True
    then show ?thesis by (simp add: show_nat.simps [of n] digit_char_is_digit)
  next
    case False
    with 1 show ?thesis by (simp add: show_nat.simps [of n] digit_char_is_digit)
  qed
qed

lemma show_nat_nonempty: "show_nat n \<noteq> []"
  by (simp add: show_nat.simps [of n])

lemma foldl_digits_show_nat:
  "foldl (\<lambda>acc c. 10 * acc + digit_val c) 0 (show_nat n) = n"
proof (induction n rule: show_nat.induct)
  case (1 n)
  show ?case
  proof (cases "n < 10")
    case True
    then show ?thesis by (simp add: show_nat.simps [of n] digit_val_digit_char)
  next
    case False
    with 1 show ?thesis by (simp add: show_nat.simps [of n] digit_val_digit_char)
  qed
qed

lemma Number_of_digits_show_nat: "Number_of_digits (show_nat n) = int n"
  by (simp add: Number_of_digits_def foldl_digits_show_nat)

lemma takeWhile_show_nat:
  "\<not> is_digit c \<Longrightarrow> takeWhile is_digit (show_nat n @ c # rest) = show_nat n"
  by (simp add: takeWhile_append2 show_nat_digits)

lemma dropWhile_show_nat:
  "\<not> is_digit c \<Longrightarrow> dropWhile is_digit (show_nat n @ c # rest) = c # rest"
  by (simp add: dropWhile_append2 show_nat_digits)

lemma match_group_hit:
  "\<not> is_digit unit \<Longrightarrow>
   match_group unit (show_nat n @ unit # rest) = (Some (show_nat n @ [unit]), rest)"
  by (simp add: match_group_def takeWhile_show_nat dropWhile_show_nat show_nat_nonempty)

lemma match_group_miss:
  "\<not> is_digit c \<Longrightarrow> c \<noteq> unit \<Longrightarrow>
   match_group unit (show_nat n @ c # rest) = (None, show_nat n @ c # rest)"
  by (simp add: match_group_def takeWhile_show_nat dropWhile_show_nat)

lemma match_group_Nil: "match_group unit [] = (None, [])"
  by (simp add: match_group_def)

subsection \<open>Matching a printed duration\<close>

lemma dur_tail_Nil: "dur_tail L []"
  by (simp add: dur_tail_def)

lemma dur_tail_part:
  assumes "dur_tail L t" "u \<in> L'" "L \<subseteq> L'" "0 \<le> v"
  shows "dur_tail L' (unit_part u v @ t)"
proof (cases "v = 0")
  case True
  with assms show ?thesis by (auto simp: unit_part_def dur_tail_def)
next
  case False
  with assms(4) have "unit_part u v @ t = show_nat (nat v) @ u # t"
    by (simp add: unit_part_def number_toString_def)
  with assms(2) show ?thesis unfolding dur_tail_def by blast
qed

lemma match_group_tail:
  assumes "dur_tail L s" "unit \<notin> L" "\<forall>c \<in> L. \<not> is_digit c"
  shows "match_group unit s = (None, s)"
proof (cases "s = []")
  case True
  then show ?thesis by (simp add: match_group_Nil)
next
  case False
  with assms(1) obtain n c rest where s: "s = show_nat n @ c # rest" and c: "c \<in> L"
    unfolding dur_tail_def by blast
  from c assms have "\<not> is_digit c" "c \<noteq> unit" by auto
  then show ?thesis unfolding s by (rule match_group_miss)
qed

lemma match_group_part:
  assumes "\<not> is_digit unit" "dur_tail L t" "unit \<notin> L" "\<forall>c \<in> L. \<not> is_digit c" "0 \<le> v"
  shows "match_group unit (unit_part unit v @ t) =
           ((if v \<noteq> 0 then Some (show_nat (nat v) @ [unit]) else None), t)"
proof (cases "v = 0")
  case True
  with assms show ?thesis by (simp add: unit_part_def match_group_tail)
next
  case False
  with assms(5) have "unit_part unit v @ t = show_nat (nat v) @ unit # t"
    by (simp add: unit_part_def number_toString_def)
  with False assms(1) show ?thesis by (simp add: match_group_hit)
qed

lemma unit_letters_not_digits:
  "\<not> is_digit (CHR ''w'')" "\<not> is_digit (CHR ''d'')" "\<not> is_digit (CHR ''h'')"
  "\<not> is_digit (CHR ''m'')" "\<not> is_digit (CHR ''s'')"
  by (simp_all add: is_digit_def digit_chars_def)

subsection \<open>The matcher finds the match of the regular expression\<close>

text \<open>
  The captures of a match are determined by the string, and \<open>match_duration\<close> computes
  them: it returns captures exactly when the string is a concatenation of groups of the
  regular expression, and then these captures. So the order in which a backtracking
  matcher tries the alternatives does not matter.
\<close>

lemma match_group_sound:
  assumes "match_group u s = (e, rest)"
  shows "group_match u e \<and> s = group_text e @ rest"
proof (cases "dropWhile is_digit s")
  case Nil
  with assms show ?thesis by (simp add: match_group_def group_match_def group_text_def)
next
  case (Cons c r)
  show ?thesis
  proof (cases "takeWhile is_digit s \<noteq> [] \<and> c = u")
    case True
    with assms Cons have e: "e = Some (takeWhile is_digit s @ [u])" and r: "rest = r"
      by (simp_all add: match_group_def)
    have "s = takeWhile is_digit s @ dropWhile is_digit s" by simp
    with Cons True have s: "s = takeWhile is_digit s @ u # r" by simp
    have "\<forall>x \<in> set (takeWhile is_digit s). is_digit x"
      by (auto dest: set_takeWhileD)
    with True have "group_match u e"
      unfolding e group_match_def by auto
    moreover from s have "s = group_text e @ rest"
      unfolding e r group_text_def by simp
    ultimately show ?thesis by simp
  next
    case False
    with assms Cons have "e = None" "rest = s"
      by (auto simp: match_group_def)
    then show ?thesis by (simp add: group_match_def group_text_def)
  qed
qed

lemma match_group_digits:
  assumes "\<forall>x \<in> set ds. is_digit x" "\<not> is_digit c"
  shows "match_group u (ds @ c # rest) =
     (if ds \<noteq> [] \<and> c = u then (Some (ds @ [c]), rest) else (None, ds @ c # rest))"
proof -
  from assms have "takeWhile is_digit (ds @ c # rest) = ds"
    and "dropWhile is_digit (ds @ c # rest) = c # rest"
    by (simp_all add: takeWhile_append2 dropWhile_append2)
  then show ?thesis by (simp add: match_group_def)
qed

lemma match_group_groups_tail:
  assumes "groups_tail L s" "u \<notin> L" "\<forall>c \<in> L. \<not> is_digit c"
  shows "match_group u s = (None, s)"
proof (cases "s = []")
  case True
  then show ?thesis by (simp add: match_group_def)
next
  case False
  with assms(1) obtain ds c rest where s: "s = ds @ c # rest"
    and ds: "\<forall>x \<in> set ds. is_digit x" and c: "c \<in> L"
    unfolding groups_tail_def by blast
  from c assms have "\<not> is_digit c" "c \<noteq> u" by auto
  with ds show ?thesis unfolding s by (simp add: match_group_digits)
qed

lemma groups_tail_group:
  assumes "groups_tail L t" "group_match u e" "u \<in> L'" "L \<subseteq> L'"
  shows "groups_tail L' (group_text e @ t)"
proof (cases e)
  case None
  with assms(1,4) show ?thesis by (auto simp: group_text_def groups_tail_def)
next
  case (Some g)
  with assms(2) obtain ds where "\<forall>c \<in> set ds. is_digit c" "g = ds @ [u]"
    unfolding group_match_def by auto
  with Some assms(3) have "group_text e @ t = ds @ u # t \<and> (\<forall>x \<in> set ds. is_digit x) \<and> u \<in> L'"
    by (simp add: group_text_def)
  then show ?thesis unfolding groups_tail_def by blast
qed

lemma match_group_complete:
  assumes "\<not> is_digit u" "group_match u e" "groups_tail L t" "u \<notin> L" "\<forall>c \<in> L. \<not> is_digit c"
  shows "match_group u (group_text e @ t) = (e, t)"
proof (cases e)
  case None
  with assms show ?thesis by (simp add: group_text_def match_group_groups_tail)
next
  case (Some g)
  with assms(2) obtain ds where ds: "ds \<noteq> []" "\<forall>c \<in> set ds. is_digit c" "g = ds @ [u]"
    unfolding group_match_def by auto
  with Some have "group_text e @ t = ds @ u # t" by (simp add: group_text_def)
  with ds Some assms(1) show ?thesis by (simp add: match_group_digits)
qed

lemma match_duration_complete:
  assumes "regex_match s (e1, e2, e3, e4, e5)"
  shows "match_duration s = Some (e1, e2, e3, e4, e5)"
proof -
  from assms have g: "group_match (CHR ''w'') e1" "group_match (CHR ''d'') e2"
    "group_match (CHR ''h'') e3" "group_match (CHR ''m'') e4" "group_match (CHR ''s'') e5"
    and s: "s = group_text e1 @ group_text e2 @ group_text e3 @ group_text e4 @ group_text e5"
    by (simp_all add: regex_match_def)
  let ?ts = "group_text e5"
  let ?tm = "group_text e4 @ ?ts"
  let ?th = "group_text e3 @ ?tm"
  let ?td = "group_text e2 @ ?th"
  have t0: "groups_tail {} []" by (simp add: groups_tail_def)
  have ts: "groups_tail {CHR ''s''} ?ts"
    using groups_tail_group [OF t0 g(5), of "{CHR ''s''}"] by simp
  have tm: "groups_tail {CHR ''m'', CHR ''s''} ?tm"
    using groups_tail_group [OF ts g(4), of "{CHR ''m'', CHR ''s''}"] by simp
  have th: "groups_tail {CHR ''h'', CHR ''m'', CHR ''s''} ?th"
    using groups_tail_group [OF tm g(3), of "{CHR ''h'', CHR ''m'', CHR ''s''}"] by simp
  have td: "groups_tail {CHR ''d'', CHR ''h'', CHR ''m'', CHR ''s''} ?td"
    using groups_tail_group [OF th g(2), of "{CHR ''d'', CHR ''h'', CHR ''m'', CHR ''s''}"] by simp
  have m1: "match_group (CHR ''w'') (group_text e1 @ ?td) = (e1, ?td)"
    by (rule match_group_complete [OF _ g(1) td]) (simp_all add: unit_letters_not_digits)
  have m2: "match_group (CHR ''d'') ?td = (e2, ?th)"
    by (rule match_group_complete [OF _ g(2) th]) (simp_all add: unit_letters_not_digits)
  have m3: "match_group (CHR ''h'') ?th = (e3, ?tm)"
    by (rule match_group_complete [OF _ g(3) tm]) (simp_all add: unit_letters_not_digits)
  have m4: "match_group (CHR ''m'') ?tm = (e4, ?ts)"
    by (rule match_group_complete [OF _ g(4) ts]) (simp_all add: unit_letters_not_digits)
  have m5: "match_group (CHR ''s'') ?ts = (e5, [])"
    using match_group_complete [OF _ g(5) t0, of ] by (simp add: unit_letters_not_digits)
  show ?thesis
    unfolding match_duration_def s by (simp only: m1 m2 m3 m4 m5 Let_def split_conv) simp
qed

lemma match_duration_sound:
  assumes "match_duration s = Some (e1, e2, e3, e4, e5)"
  shows "regex_match s (e1, e2, e3, e4, e5)"
proof -
  obtain a1 s1 where 1: "match_group (CHR ''w'') s = (a1, s1)" by (cases "match_group (CHR ''w'') s")
  obtain a2 s2 where 2: "match_group (CHR ''d'') s1 = (a2, s2)" by (cases "match_group (CHR ''d'') s1")
  obtain a3 s3 where 3: "match_group (CHR ''h'') s2 = (a3, s3)" by (cases "match_group (CHR ''h'') s2")
  obtain a4 s4 where 4: "match_group (CHR ''m'') s3 = (a4, s4)" by (cases "match_group (CHR ''m'') s3")
  obtain a5 s5 where 5: "match_group (CHR ''s'') s4 = (a5, s5)" by (cases "match_group (CHR ''s'') s4")
  from assms have "(if s5 = [] then Some (a1, a2, a3, a4, a5) else None) = Some (e1, e2, e3, e4, e5)"
    unfolding match_duration_def by (simp only: 1 2 3 4 5 Let_def split_conv)
  then have e: "s5 = []" "a1 = e1" "a2 = e2" "a3 = e3" "a4 = e4" "a5 = e5"
    by (simp_all split: if_splits)
  note snd = match_group_sound [OF 1] match_group_sound [OF 2] match_group_sound [OF 3]
    match_group_sound [OF 4] match_group_sound [OF 5]
  from snd e show ?thesis
    unfolding regex_match_def by simp
qed

lemma match_duration_is_the_regex:
  "match_duration s = Some es \<longleftrightarrow> regex_match s es"
proof (cases es)
  case (fields e1 e2 e3 e4 e5)
  show ?thesis
    unfolding fields using match_duration_sound match_duration_complete by blast
qed

subsection \<open>The round trip\<close>

lemma match_duration_parts:
  assumes "0 \<le> w" "0 \<le> d" "0 \<le> h" "0 \<le> m" "0 \<le> s"
  shows "match_duration (unit_part (CHR ''w'') w @ unit_part (CHR ''d'') d @ unit_part (CHR ''h'') h
            @ unit_part (CHR ''m'') m @ unit_part (CHR ''s'') s)
         = Some (element_of (CHR ''w'') w, element_of (CHR ''d'') d, element_of (CHR ''h'') h,
                 element_of (CHR ''m'') m, element_of (CHR ''s'') s)"
proof -
  let ?ts = "unit_part (CHR ''s'') s"
  let ?tm = "unit_part (CHR ''m'') m @ ?ts"
  let ?th = "unit_part (CHR ''h'') h @ ?tm"
  let ?td = "unit_part (CHR ''d'') d @ ?th"
  have t0: "dur_tail {} []" by (rule dur_tail_Nil)
  have ts: "dur_tail {CHR ''s''} ?ts"
    using dur_tail_part [OF t0, of "CHR ''s''" "{CHR ''s''}" s] assms by simp
  have tm: "dur_tail {CHR ''m'', CHR ''s''} ?tm"
    using dur_tail_part [OF ts, of "CHR ''m''" "{CHR ''m'', CHR ''s''}" m] assms by simp
  have th: "dur_tail {CHR ''h'', CHR ''m'', CHR ''s''} ?th"
    using dur_tail_part [OF tm, of "CHR ''h''" "{CHR ''h'', CHR ''m'', CHR ''s''}" h] assms by simp
  have td: "dur_tail {CHR ''d'', CHR ''h'', CHR ''m'', CHR ''s''} ?td"
    using dur_tail_part [OF th, of "CHR ''d''" "{CHR ''d'', CHR ''h'', CHR ''m'', CHR ''s''}" d] assms
    by simp
  have g1: "match_group (CHR ''w'') (unit_part (CHR ''w'') w @ ?td) = (element_of (CHR ''w'') w, ?td)"
    unfolding element_of_def
    by (rule match_group_part [OF _ td]) (simp_all add: unit_letters_not_digits assms)
  have g2: "match_group (CHR ''d'') ?td = (element_of (CHR ''d'') d, ?th)"
    unfolding element_of_def
    by (rule match_group_part [OF _ th]) (simp_all add: unit_letters_not_digits assms)
  have g3: "match_group (CHR ''h'') ?th = (element_of (CHR ''h'') h, ?tm)"
    unfolding element_of_def
    by (rule match_group_part [OF _ tm]) (simp_all add: unit_letters_not_digits assms)
  have g4: "match_group (CHR ''m'') ?tm = (element_of (CHR ''m'') m, ?ts)"
    unfolding element_of_def
    by (rule match_group_part [OF _ ts]) (simp_all add: unit_letters_not_digits assms)
  have g5: "match_group (CHR ''s'') ?ts = (element_of (CHR ''s'') s, [])"
    using match_group_part [OF _ t0, of "CHR ''s''" s] assms
    by (simp add: unit_letters_not_digits element_of_def)
  show ?thesis
    unfolding match_duration_def by (simp only: g1 g2 g3 g4 g5 Let_def split_conv) simp
qed

lemma concat_map_filter_if:
  "concat (map f (filter P xs)) = concat (map (\<lambda>x. if P x then f x else []) xs)"
  by (induction xs) simp_all

lemma stringifyDuration_parts:
  assumes "0 < n"
  shows "stringifyDuration n =
     Some (unit_part (CHR ''w'') (n div 604800) @ unit_part (CHR ''d'') (n mod 604800 div 86400)
        @ unit_part (CHR ''h'') (n mod 86400 div 3600) @ unit_part (CHR ''m'') (n mod 3600 div 60)
        @ unit_part (CHR ''s'') (n mod 60))"
proof -
  have r: "js_rem n b = n mod b" if "0 < b" for b
    using assms that by (simp add: js_rem_def)
  have "stringifyDuration n = Some (concat (map (\<lambda>(unit, val). unit_part unit val) (duration_units n)))"
    using assms unfolding stringifyDuration_def concat_map_filter_if
    by (simp add: unit_part_def case_prod_unfold cong: if_cong)
  then show ?thesis
    by (simp add: duration_units_def r)
qed

lemma setter_in_window:
  assumes "offset_constant tz c lo hi" and "lo \<le> t" and "0 \<le> delta" and "t + delta \<le> hi"
  shows "UTC tz (LocalTime tz t + delta) = t + delta"
proof -
  from assms have "lo \<le> t \<and> t \<le> hi" by simp
  with assms(1) have utc: "LocalTZA_of_utc tz t = c"
    unfolding offset_constant_def by blast
  from assms have "lo + c \<le> t + c + delta \<and> t + c + delta \<le> hi + c" by simp
  with assms(1) have "LocalTZA_of_local tz (t + c + delta) = c"
    unfolding offset_constant_def by blast
  with utc show ?thesis by (simp add: LocalTime_def UTC_def)
qed

lemma apply_element_in_window:
  assumes window: "offset_constant tz c lo hi"
    and setter: "\<And>k t. setter k t = UTC tz (LocalTime tz t + k * unit)"
    and "0 \<le> v" and "0 \<le> unit" and "lo \<le> fst st" and "fst st + v * unit \<le> hi"
  shows "apply_element setter (element_of u v) st = (fst st + v * unit, v \<noteq> 0 \<or> snd st)"
proof (cases "v = 0")
  case True
  then show ?thesis by (simp add: apply_element_def element_of_def)
next
  case False
  from assms have "0 \<le> v * unit" by simp
  from setter_in_window [OF window assms(5) this assms(6)]
  have "setter v (fst st) = fst st + v * unit" by (simp add: setter)
  with False assms(3) show ?thesis
    by (simp add: apply_element_def element_of_def Number_of_digits_show_nat)
qed

lemma duration_decomposition:
  fixes n :: int
  shows "604800 * (n div 604800) + 86400 * (n mod 604800 div 86400) + 3600 * (n mod 86400 div 3600)
       + 60 * (n mod 3600 div 60) + n mod 60 = n"
proof -
  have a: "n mod 604800 mod 86400 = n mod 86400" by (rule mod_mod_cancel) simp
  have b: "n mod 86400 mod 3600 = n mod 3600" by (rule mod_mod_cancel) simp
  have c: "n mod 3600 mod 60 = n mod 60" by (rule mod_mod_cancel) simp
  have 1: "n = 604800 * (n div 604800) + n mod 604800" by simp
  have 2: "n mod 604800 = 86400 * (n mod 604800 div 86400) + n mod 86400"
    using mult_div_mod_eq [of 86400 "n mod 604800"] a by simp
  have 3: "n mod 86400 = 3600 * (n mod 86400 div 3600) + n mod 3600"
    using mult_div_mod_eq [of 3600 "n mod 86400"] b by simp
  have 4: "n mod 3600 = 60 * (n mod 3600 div 60) + n mod 60"
    using mult_div_mod_eq [of 60 "n mod 3600"] c by simp
  from 1 2 3 4 show ?thesis by linarith
qed

text \<open>
  Where the code agrees with the round trip: for every positive integer \<open>n\<close>, on a host
  whose local time keeps one offset from the current time to \<open>n\<close> seconds after it,
  \<^verbatim>\<open>parseNaturalLanguageDuration(stringifyDuration(n))\<close> is the time value \<open>1000 * n\<close>
  milliseconds after the current time. The decomposition into weeks, days, hours, minutes
  and seconds goes through the grammar without loss; what is left to fail is the
  addition, when the offset changes inside the range.
\<close>

lemma duration_round_trip_in_constant_window:
  assumes "0 < n" and window: "offset_constant tz c now (now + 1000 * n)"
  shows "duration_round_trip tz now n = Some (now + 1000 * n)"
proof -
  define w d h m s where "w = n div 604800" and "d = n mod 604800 div 86400"
    and "h = n mod 86400 div 3600" and "m = n mod 3600 div 60" and "s = n mod 60"
  have nonneg: "0 \<le> w" "0 \<le> d" "0 \<le> h" "0 \<le> m" "0 \<le> s"
    using assms(1) by (simp_all add: w_def d_def h_def m_def s_def pos_imp_zdiv_nonneg_iff)
  have sum: "604800 * w + 86400 * d + 3600 * h + 60 * m + s = n"
    unfolding w_def d_def h_def m_def s_def by (rule duration_decomposition)
  have some: "w \<noteq> 0 \<or> d \<noteq> 0 \<or> h \<noteq> 0 \<or> m \<noteq> 0 \<or> s \<noteq> 0"
    using sum assms(1) by auto
  let ?str = "unit_part (CHR ''w'') w @ unit_part (CHR ''d'') d @ unit_part (CHR ''h'') h
            @ unit_part (CHR ''m'') m @ unit_part (CHR ''s'') s"
  have str: "stringifyDuration n = Some ?str"
    using stringifyDuration_parts [OF assms(1)] by (simp add: w_def d_def h_def m_def s_def)
  have md: "match_duration ?str = Some (element_of (CHR ''w'') w, element_of (CHR ''d'') d,
      element_of (CHR ''h'') h, element_of (CHR ''m'') m, element_of (CHR ''s'') s)"
    by (rule match_duration_parts [OF nonneg])
  define t1 t2 t3 t4 t5 where "t1 = now + w * 604800000" and "t2 = t1 + d * 86400000"
    and "t3 = t2 + h * 3600000" and "t4 = t3 + m * 60000" and "t5 = t4 + s * 1000"
  have t5: "t5 = now + 1000 * n"
    using sum unfolding t1_def t2_def t3_def t4_def t5_def by simp
  have order: "now \<le> t1" "t1 \<le> t2" "t2 \<le> t3" "t3 \<le> t4" "t4 \<le> t5"
    using nonneg unfolding t1_def t2_def t3_def t4_def t5_def by simp_all
  have e1: "apply_element (\<lambda>weeks. setDate_plus tz (7 * weeks)) (element_of (CHR ''w'') w) (now, b)
      = (t1, w \<noteq> 0 \<or> b)" for b
  proof -
    have "setDate_plus tz (7 * k) t = UTC tz (LocalTime tz t + k * 604800000)" for k t
      by (simp add: setDate_plus_def msPerDay_def mult.commute)
    from apply_element_in_window [OF window this, of w "(now, b)" "CHR ''w''"]
    show ?thesis using nonneg order t5 by (simp add: t1_def)
  qed
  have e2: "apply_element (setDate_plus tz) (element_of (CHR ''d'') d) (t1, b)
      = (t2, d \<noteq> 0 \<or> b)" for b
    using apply_element_in_window [OF window, of "setDate_plus tz" 86400000 d "(t1, b)" "CHR ''d''"]
      nonneg order t5
    by (simp add: setDate_plus_def msPerDay_def t2_def)
  have e3: "apply_element (setHours_plus tz) (element_of (CHR ''h'') h) (t2, b)
      = (t3, h \<noteq> 0 \<or> b)" for b
    using apply_element_in_window [OF window, of "setHours_plus tz" 3600000 h "(t2, b)" "CHR ''h''"]
      nonneg order t5
    by (simp add: setHours_plus_def msPerHour_def t3_def)
  have e4: "apply_element (setMinutes_plus tz) (element_of (CHR ''m'') m) (t3, b)
      = (t4, m \<noteq> 0 \<or> b)" for b
    using apply_element_in_window [OF window, of "setMinutes_plus tz" 60000 m "(t3, b)" "CHR ''m''"]
      nonneg order t5
    by (simp add: setMinutes_plus_def msPerMinute_def t4_def)
  have e5: "apply_element (setSeconds_plus tz) (element_of (CHR ''s'') s) (t4, b)
      = (t5, s \<noteq> 0 \<or> b)" for b
    using apply_element_in_window [OF window, of "setSeconds_plus tz" 1000 s "(t4, b)" "CHR ''s''"]
      nonneg order t5
    by (simp add: setSeconds_plus_def msPerSecond_def t5_def)
  have "parseNaturalLanguageDuration tz now ?str = Some t5"
    unfolding parseNaturalLanguageDuration_def md Let_def option.case prod.case e1 e2 e3 e4 e5
    using some by auto
  with str t5 show ?thesis by (simp add: duration_round_trip_def)
qed

text \<open>Two hosts on which the range never meets a change of the offset: a host at a
  constant offset from UTC, UTC itself in particular, and the host on Central European
  time from the change to summer time on.\<close>

lemma duration_round_trip_at_fixed_offset:
  assumes "0 < n"
  shows "duration_round_trip (fixed_offset c) now n = Some (now + 1000 * n)"
  by (rule duration_round_trip_in_constant_window [OF assms, of _ c])
    (simp add: offset_constant_def fixed_offset_def)

lemma duration_round_trip_in_summer_time:
  assumes "0 < n" and "1774746000000 \<le> now"
  shows "duration_round_trip example_summer_timezone now n = Some (now + 1000 * n)"
proof -
  have "offset_constant example_summer_timezone 7200000 now (now + 1000 * n)"
    using assms(2) by (simp add: offset_constant_def example_summer_timezone_def)
  with assms(1) show ?thesis by (rule duration_round_trip_in_constant_window)
qed

lemma duration_round_trip_example: "duration_round_trip (fixed_offset 0) 5000 90061 = Some 90066000"
  using duration_round_trip_at_fixed_offset [of 90061 0 5000] by simp

lemma duration_round_trip_summer_example:
  "duration_round_trip example_summer_timezone 1774746000000 86400 = Some 1774832400000"
  using duration_round_trip_in_summer_time [of 86400 1774746000000] by simp

text \<open>
  Claim C9. For every positive integer \<open>n \<le> 10 * 604800\<close>,
  \<^verbatim>\<open>parseNaturalLanguageDuration(stringifyDuration(n))\<close> is to return the time value exactly
  \<open>n\<close> seconds after the current time. The code does not, when the local time of the host
  changes its offset within these \<open>n\<close> seconds: it adds the components with the setters of
  the local time. On the host on Central European time, half an hour before the change to
  summer time of 29 March 2026 (time value 1774744200000), \<open>n = 7200\<close> prints as \<^verbatim>\<open>2h\<close>
  and comes back 3600 seconds after the current time; the day before at 12:00 UTC (time
  value 1774699200000), \<open>n = 86400\<close> prints as \<^verbatim>\<open>1d\<close> and comes back 82800 seconds after
  it, and so does the string \<^verbatim>\<open>86400s\<close>, a count of seconds.
\<close>

theorem duration_round_trip_across_summer_time:
  "(0::int) < 7200 \<and> (7200::int) \<le> 10 * 604800
   \<and> stringifyDuration 7200 = Some ''2h''
   \<and> duration_round_trip example_summer_timezone 1774744200000 7200
       = Some (1774744200000 + 1000 * 3600)
   \<and> duration_round_trip example_summer_timezone 1774744200000 7200
       \<noteq> Some (1774744200000 + 1000 * 7200)
   \<and> stringifyDuration 86400 = Some ''1d''
   \<and> duration_round_trip example_summer_timezone 1774699200000 86400
       = Some (1774699200000 + 1000 * 82800)
   \<and> duration_round_trip example_summer_timezone 1774699200000 86400
       \<noteq> Some (1774699200000 + 1000 * 86400)
   \<and> parseNaturalLanguageDuration example_summer_timezone 1774699200000 ''86400s''
       = Some (1774699200000 + 1000 * 82800)"
proof -
  have printed: "(0::int) < 7200 \<and> (7200::int) \<le> 10 * 604800
      \<and> stringifyDuration 7200 = Some ''2h''
      \<and> duration_round_trip example_summer_timezone 1774744200000 7200
          = Some (1774744200000 + 1000 * 3600)
      \<and> duration_round_trip example_summer_timezone 1774744200000 7200
          \<noteq> Some (1774744200000 + 1000 * 7200)
      \<and> stringifyDuration 86400 = Some ''1d''
      \<and> duration_round_trip example_summer_timezone 1774699200000 86400
          = Some (1774699200000 + 1000 * 82800)
      \<and> duration_round_trip example_summer_timezone 1774699200000 86400
          \<noteq> Some (1774699200000 + 1000 * 86400)"
    by code_simp
  have amount: "Number_of_digits ''86400'' = 86400"
    by (simp add: Number_of_digits_def digit_val_def)
  have "match_duration ''86400s'' = Some (None, None, None, None, Some ''86400s'')"
    by (simp add: match_duration_def match_group_def is_digit_def digit_chars_def)
  then have "parseNaturalLanguageDuration example_summer_timezone 1774699200000 ''86400s''
      = Some (1774699200000 + 1000 * 82800)"
    by (simp add: parseNaturalLanguageDuration_def apply_element_def amount setSeconds_plus_def
        msPerSecond_def LocalTime_def UTC_def example_summer_timezone_def)
  with printed show ?thesis by blast
qed

section \<open>The ways through \<^verbatim>\<open>call\<close>\<close>

subsection \<open>Reading the log of a part\<close>

lemma after_effects_fst: "fst (after_effects es out) = fst out"
  by (simp add: after_effects_def)

lemma after_effects_snd: "snd (after_effects es out) = es @ snd out"
  by (simp add: after_effects_def)

lemma triggered_append: "triggered (es @ fs) = triggered es @ triggered fs"
  by (induction es rule: triggered.induct) simp_all

lemma uploads_append: "uploads (es @ fs) = uploads es @ uploads fs"
  by (induction es rule: uploads.induct) simp_all

lemma created_tags_append: "created_tags (es @ fs) = created_tags es @ created_tags fs"
  by (induction es rule: created_tags.induct) simp_all

lemma createTags_log:
  "triggered (snd (createTags c projectId tags)) = []"
  "uploads (snd (createTags c projectId tags)) = []"
  "created_tags (snd (createTags c projectId tags)) = tags"
  "filter is_entitlement_call (snd (createTags c projectId tags)) = []"
  "filter is_traceEvent_call (snd (createTags c projectId tags)) = []"
  by (induction tags) (simp_all add: case_prod_unfold Let_def)

lemma handlePayloadPacket_log:
  "triggered (snd (handlePayloadPacket c payload payloadType pathPrefix environment)) = []"
  "created_tags (snd (handlePayloadPacket c payload payloadType pathPrefix environment)) = []"
  "filter is_database_write (snd (handlePayloadPacket c payload payloadType pathPrefix environment)) = []"
  by (simp_all add: handlePayloadPacket_def Let_def case_prod_unfold split: option.splits)

lemma trigger_params_fields:
  "p_friendlyId (trigger_params c taskId environment body opts idempotencyKey delayUntil ttl
     runFriendlyId payloadPacket metadataPacket dependentAttempt parentAttempt dependentBatchRun
     parentBatchRun event num lockedToBackgroundWorker queueName tagIds depth) = runFriendlyId"
  "p_ttl (trigger_params c taskId environment body opts idempotencyKey delayUntil ttl
     runFriendlyId payloadPacket metadataPacket dependentAttempt parentAttempt dependentBatchRun
     parentBatchRun event num lockedToBackgroundWorker queueName tagIds depth) = ttl"
  "p_payload (trigger_params c taskId environment body opts idempotencyKey delayUntil ttl
     runFriendlyId payloadPacket metadataPacket dependentAttempt parentAttempt dependentBatchRun
     parentBatchRun event num lockedToBackgroundWorker queueName tagIds depth)
     = (case data payloadPacket of None \<Rightarrow> [] | Some d \<Rightarrow> d)"
  "p_payloadType (trigger_params c taskId environment body opts idempotencyKey delayUntil ttl
     runFriendlyId payloadPacket metadataPacket dependentAttempt parentAttempt dependentBatchRun
     parentBatchRun event num lockedToBackgroundWorker queueName tagIds depth)
     = dataType payloadPacket"
  "p_depth (trigger_params c taskId environment body opts idempotencyKey delayUntil ttl
     runFriendlyId payloadPacket metadataPacket dependentAttempt parentAttempt dependentBatchRun
     parentBatchRun event num lockedToBackgroundWorker queueName tagIds depth) = depth"
  "p_resumeParentOnCompletion (trigger_params c taskId environment body opts idempotencyKey
     delayUntil ttl runFriendlyId payloadPacket metadataPacket dependentAttempt parentAttempt
     dependentBatchRun parentBatchRun event num lockedToBackgroundWorker queueName tagIds depth)
     = (dependentAttempt \<noteq> None \<or> dependentBatchRun \<noteq> None)"
  unfolding trigger_params_def
       apply simp
      apply simp
     apply simp
    apply simp
   apply simp
  apply (cases dependentAttempt; cases dependentBatchRun; simp)
  done

lemma trigger_callback_log:
  fixes c db taskId environment body opts idempotencyKey delayUntil ttl runFriendlyId
    payloadPacket metadataPacket dependentAttempt parentAttempt dependentBatchRun parentBatchRun
    event num
  defines "out \<equiv> trigger_callback c db taskId environment body opts idempotencyKey delayUntil ttl
     runFriendlyId payloadPacket metadataPacket dependentAttempt parentAttempt dependentBatchRun
     parentBatchRun event num"
  shows "\<exists>p. triggered (snd out) = [p] \<and> fst out = engine_trigger c p
      \<and> created_as p ttl runFriendlyId payloadPacket dependentAttempt parentAttempt dependentBatchRun"
    and "uploads (snd out) = []"
    and "created_tags (snd out) = (case bodyTags body of None \<Rightarrow> [] | Some ts \<Rightarrow> ts)"
  unfolding out_def trigger_callback_def created_as_def
  by (simp_all add: Let_def case_prod_unfold triggered_append uploads_append created_tags_append
      createTags_log trigger_params_fields)

lemma call_from_traceEvent_log:
  fixes c db taskId environment body opts idempotencyKey delayUntil ttl runFriendlyId
    payloadPacket metadataPacket dependentAttempt parentAttempt dependentBatchRun parentBatchRun
  defines "out \<equiv> call_from_traceEvent c db taskId environment body opts idempotencyKey delayUntil
     ttl runFriendlyId payloadPacket metadataPacket dependentAttempt parentAttempt
     dependentBatchRun parentBatchRun"
  shows "\<exists>p. triggered (snd out) = [p] \<and> fst out = Inr (engine_trigger c p)
      \<and> created_as p ttl runFriendlyId payloadPacket dependentAttempt parentAttempt dependentBatchRun"
    and "uploads (snd out) = []"
    and "created_tags (snd out) = (case bodyTags body of None \<Rightarrow> [] | Some ts \<Rightarrow> ts)"
proof -
  let ?ev = "traceEvent c taskId
     \<lparr>te_context = so_traceContext opts,
      te_spanParentAsLink = so_spanParentAsLink opts,
      te_parentAsLinkType = so_parentAsLinkType opts,
      te_kind = ''SERVER'',
      te_environment = environment,
      te_taskSlug = taskId,
      te_showActions = True,
      te_icon = (case so_customIcon opts of None \<Rightarrow> ''task'' | Some i \<Rightarrow> i),
      te_runIsTest = (case body_option o_test body of None \<Rightarrow> False | Some t \<Rightarrow> t),
      te_batchId = so_batchId opts,
      te_idempotencyKey = idempotencyKey,
      te_incomplete = True,
      te_immediate = True\<rparr>"
  let ?num = "incrementInTransaction_num (autoIncrementCounter c)
      (''v3-run:'' @ env_id environment @ '':'' @ taskId) (deriveInitial db taskId environment)"
  let ?cb = "trigger_callback c db taskId environment body opts idempotencyKey delayUntil ttl
     runFriendlyId payloadPacket metadataPacket dependentAttempt parentAttempt dependentBatchRun
     parentBatchRun ?ev ?num"
  have f: "fst out = Inr (fst ?cb)" and s: "snd out = [TraceEvent taskId
     \<lparr>te_context = so_traceContext opts,
      te_spanParentAsLink = so_spanParentAsLink opts,
      te_parentAsLinkType = so_parentAsLinkType opts,
      te_kind = ''SERVER'',
      te_environment = environment,
      te_taskSlug = taskId,
      te_showActions = True,
      te_icon = (case so_customIcon opts of None \<Rightarrow> ''task'' | Some i \<Rightarrow> i),
      te_runIsTest = (case body_option o_test body of None \<Rightarrow> False | Some t \<Rightarrow> t),
      te_batchId = so_batchId opts,
      te_idempotencyKey = idempotencyKey,
      te_incomplete = True,
      te_immediate = True\<rparr>, IncrementInTransaction (''v3-run:'' @ env_id environment @ '':'' @ taskId)] @ snd ?cb"
    unfolding out_def call_from_traceEvent_def by (simp_all add: Let_def case_prod_unfold)
  from trigger_callback_log(1) [of c db taskId environment body opts idempotencyKey delayUntil ttl
     runFriendlyId payloadPacket metadataPacket dependentAttempt parentAttempt dependentBatchRun
     parentBatchRun ?ev ?num]
  show "\<exists>p. triggered (snd out) = [p] \<and> fst out = Inr (engine_trigger c p)
      \<and> created_as p ttl runFriendlyId payloadPacket dependentAttempt parentAttempt dependentBatchRun"
    unfolding f s by (auto simp: triggered_append)
  show "uploads (snd out) = []"
    unfolding s by (simp add: uploads_append trigger_callback_log(2))
  show "created_tags (snd out) = (case bodyTags body of None \<Rightarrow> [] | Some ts \<Rightarrow> ts)"
    unfolding s by (simp add: created_tags_append trigger_callback_log(3))
qed

lemma call_from_dependencies_cases:
  "call_from_dependencies c db taskId environment body opts idempotencyKey delayUntil ttl
     runFriendlyId payloadPacket metadataPacket =
   (case dependentAttempt_error c db taskId body of
      Some e \<Rightarrow> (Inl e, [])
    | None \<Rightarrow>
        (case dependentBatch_error c db taskId body of
           Some e \<Rightarrow> (Inl e, [])
         | None \<Rightarrow>
             call_from_traceEvent c db taskId environment body opts idempotencyKey delayUntil ttl
               runFriendlyId payloadPacket metadataPacket
               (find_attempt db (body_option o_dependentAttempt body))
               (find_attempt db (body_option o_parentAttempt body))
               (find_batch db (body_option o_dependentBatch body))
               (find_batch db (body_option o_parentBatch body))))"
  unfolding call_from_dependencies_def dependentAttempt_error_def dependentBatch_error_def Let_def
  by (rule refl)

lemma call_from_entitlement_cases:
  "call_from_entitlement c db taskId environment body opts idempotencyKey delayUntil ttl =
   (if entitlement_denied c environment
    then (Inl OutOfEntitlementError, entitlement_effects environment)
    else
      (case tags_error body of
         Some e \<Rightarrow> (Inl e, entitlement_effects environment)
       | None \<Rightarrow>
           after_effects
             (entitlement_effects environment
              @ snd (handlePayloadPacket c (b_payload body) (body_payloadType body)
                       (generateFriendlyId c ''run'') environment))
             (call_from_dependencies c db taskId environment body opts idempotencyKey delayUntil
                ttl (generateFriendlyId c ''run'')
                (fst (handlePayloadPacket c (b_payload body) (body_payloadType body)
                        (generateFriendlyId c ''run'') environment))
                (body_metadataPacket c body))))"
  unfolding call_from_entitlement_def Let_def case_prod_unfold
  by (rule refl)

lemma call_cases:
  "call c db taskId environment body opts =
   after_effects [SpanSetAttribute ''taskId'' taskId]
     (case find_existingRun db environment taskId (effective_idempotencyKey opts body) of
        Some run \<Rightarrow> (Inr run, [SpanSetAttribute ''runId'' (tr_friendlyId run)])
      | None \<Rightarrow>
          call_from_entitlement c db taskId environment body opts
            (effective_idempotencyKey opts body)
            (parseDelay (Date_parse c) (host_timezone c) (clock_now c) (body_option o_delay body))
            (normalized_ttl environment body))"
  unfolding call_def Let_def
  by (rule refl)

text \<open>The five ways through the function.\<close>

lemma call_hit:
  assumes "find_existingRun db environment taskId (effective_idempotencyKey opts body) = Some run"
  shows "call c db taskId environment body opts =
     (Inr run, [SpanSetAttribute ''taskId'' taskId, SpanSetAttribute ''runId'' (tr_friendlyId run)])"
  using assms by (simp add: call_cases after_effects_def)

lemma call_denied:
  assumes "find_existingRun db environment taskId (effective_idempotencyKey opts body) = None"
    and "entitlement_denied c environment"
  shows "call c db taskId environment body opts =
     (Inl OutOfEntitlementError, SpanSetAttribute ''taskId'' taskId # entitlement_effects environment)"
  using assms by (simp add: call_cases call_from_entitlement_cases after_effects_def)

lemma call_tags_rejected:
  assumes "find_existingRun db environment taskId (effective_idempotencyKey opts body) = None"
    and "\<not> entitlement_denied c environment"
    and "tags_error body = Some e"
  shows "call c db taskId environment body opts =
     (Inl e, SpanSetAttribute ''taskId'' taskId # entitlement_effects environment)"
  using assms by (simp add: call_cases call_from_entitlement_cases after_effects_def)

lemma call_dependentAttempt_rejected:
  assumes "find_existingRun db environment taskId (effective_idempotencyKey opts body) = None"
    and "\<not> entitlement_denied c environment"
    and "tags_error body = None"
    and "dependentAttempt_error c db taskId body = Some e"
  shows "call c db taskId environment body opts =
     (Inl e, SpanSetAttribute ''taskId'' taskId # entitlement_effects environment
        @ snd (handlePayloadPacket c (b_payload body) (body_payloadType body)
                 (generateFriendlyId c ''run'') environment))"
  using assms
  by (simp add: call_cases call_from_entitlement_cases call_from_dependencies_cases
      after_effects_def)

lemma call_dependentBatch_rejected:
  assumes "find_existingRun db environment taskId (effective_idempotencyKey opts body) = None"
    and "\<not> entitlement_denied c environment"
    and "tags_error body = None"
    and "dependentAttempt_error c db taskId body = None"
    and "dependentBatch_error c db taskId body = Some e"
  shows "call c db taskId environment body opts =
     (Inl e, SpanSetAttribute ''taskId'' taskId # entitlement_effects environment
        @ snd (handlePayloadPacket c (b_payload body) (body_payloadType body)
                 (generateFriendlyId c ''run'') environment))"
  using assms
  by (simp add: call_cases call_from_entitlement_cases call_from_dependencies_cases
      after_effects_def)

lemma entitlement_effects_log:
  "triggered (entitlement_effects environment) = []"
  "uploads (entitlement_effects environment) = []"
  "created_tags (entitlement_effects environment) = []"
  "filter is_database_write (entitlement_effects environment) = []"
  by (simp_all add: entitlement_effects_def)

lemma call_passes:
  assumes "find_existingRun db environment taskId (effective_idempotencyKey opts body) = None"
    and "\<not> entitlement_denied c environment"
    and "tags_error body = None"
    and "dependentAttempt_error c db taskId body = None"
    and "dependentBatch_error c db taskId body = None"
  shows "\<exists>p. triggered (snd (call c db taskId environment body opts)) = [p]
      \<and> fst (call c db taskId environment body opts) = Inr (engine_trigger c p)
      \<and> created_as p (normalized_ttl environment body) (generateFriendlyId c ''run'')
           (fst (handlePayloadPacket c (b_payload body) (body_payloadType body)
                   (generateFriendlyId c ''run'') environment))
           (find_attempt db (body_option o_dependentAttempt body))
           (find_attempt db (body_option o_parentAttempt body))
           (find_batch db (body_option o_dependentBatch body))"
    and "uploads (snd (call c db taskId environment body opts)) =
           uploads (snd (handlePayloadPacket c (b_payload body) (body_payloadType body)
                           (generateFriendlyId c ''run'') environment))"
    and "created_tags (snd (call c db taskId environment body opts)) =
           (case bodyTags body of None \<Rightarrow> [] | Some ts \<Rightarrow> ts)"
proof -
  let ?hp = "handlePayloadPacket c (b_payload body) (body_payloadType body)
                   (generateFriendlyId c ''run'') environment"
  let ?te = "call_from_traceEvent c db taskId environment body opts
      (effective_idempotencyKey opts body)
      (parseDelay (Date_parse c) (host_timezone c) (clock_now c) (body_option o_delay body))
      (normalized_ttl environment body) (generateFriendlyId c ''run'') (fst ?hp)
      (body_metadataPacket c body)
      (find_attempt db (body_option o_dependentAttempt body))
      (find_attempt db (body_option o_parentAttempt body))
      (find_batch db (body_option o_dependentBatch body))
      (find_batch db (body_option o_parentBatch body))"
  have eq: "call c db taskId environment body opts =
      (fst ?te, SpanSetAttribute ''taskId'' taskId # entitlement_effects environment @ snd ?hp @ snd ?te)"
    using assms
    by (simp add: call_cases call_from_entitlement_cases call_from_dependencies_cases
        after_effects_def)
  show "\<exists>p. triggered (snd (call c db taskId environment body opts)) = [p]
      \<and> fst (call c db taskId environment body opts) = Inr (engine_trigger c p)
      \<and> created_as p (normalized_ttl environment body) (generateFriendlyId c ''run'') (fst ?hp)
           (find_attempt db (body_option o_dependentAttempt body))
           (find_attempt db (body_option o_parentAttempt body))
           (find_batch db (body_option o_dependentBatch body))"
    unfolding eq
    using call_from_traceEvent_log(1) [of c db taskId environment body opts
      "effective_idempotencyKey opts body"
      "parseDelay (Date_parse c) (host_timezone c) (clock_now c) (body_option o_delay body)"
      "normalized_ttl environment body" "generateFriendlyId c ''run''" "fst ?hp"
      "body_metadataPacket c body"
      "find_attempt db (body_option o_dependentAttempt body)"
      "find_attempt db (body_option o_parentAttempt body)"
      "find_batch db (body_option o_dependentBatch body)"
      "find_batch db (body_option o_parentBatch body)"]
    by (simp add: triggered_append entitlement_effects_log handlePayloadPacket_log)
  show "uploads (snd (call c db taskId environment body opts)) = uploads (snd ?hp)"
    unfolding eq
    by (simp add: uploads_append entitlement_effects_log call_from_traceEvent_log(2))
  show "created_tags (snd (call c db taskId environment body opts)) =
           (case bodyTags body of None \<Rightarrow> [] | Some ts \<Rightarrow> ts)"
    unfolding eq
    by (simp add: created_tags_append entitlement_effects_log handlePayloadPacket_log
        call_from_traceEvent_log(3))
qed

text \<open>A Run is handed to the engine only on the last way.\<close>

lemma call_triggered_passes:
  assumes "p \<in> set (triggered (snd (call c db taskId environment body opts)))"
  shows "find_existingRun db environment taskId (effective_idempotencyKey opts body) = None"
    and "\<not> entitlement_denied c environment"
    and "tags_error body = None"
    and "dependentAttempt_error c db taskId body = None"
    and "dependentBatch_error c db taskId body = None"
proof -
  show 1: "find_existingRun db environment taskId (effective_idempotencyKey opts body) = None"
  proof (rule ccontr)
    assume "find_existingRun db environment taskId (effective_idempotencyKey opts body) \<noteq> None"
    then obtain run where
      "find_existingRun db environment taskId (effective_idempotencyKey opts body) = Some run"
      by blast
    from call_hit [OF this, of c] assms show False by simp
  qed
  show 2: "\<not> entitlement_denied c environment"
  proof
    assume "entitlement_denied c environment"
    from call_denied [OF 1 this, of ] assms show False
      by (simp add: entitlement_effects_log)
  qed
  show 3: "tags_error body = None"
  proof (rule ccontr)
    assume "tags_error body \<noteq> None"
    then obtain e where "tags_error body = Some e" by blast
    from call_tags_rejected [OF 1 2 this] assms show False
      by (simp add: entitlement_effects_log)
  qed
  show 4: "dependentAttempt_error c db taskId body = None"
  proof (rule ccontr)
    assume "dependentAttempt_error c db taskId body \<noteq> None"
    then obtain e where "dependentAttempt_error c db taskId body = Some e" by blast
    from call_dependentAttempt_rejected [OF 1 2 3 this] assms show False
      by (simp add: triggered_append entitlement_effects_log handlePayloadPacket_log)
  qed
  show "dependentBatch_error c db taskId body = None"
  proof (rule ccontr)
    assume "dependentBatch_error c db taskId body \<noteq> None"
    then obtain e where "dependentBatch_error c db taskId body = Some e" by blast
    from call_dependentBatch_rejected [OF 1 2 3 4 this] assms show False
      by (simp add: triggered_append entitlement_effects_log handlePayloadPacket_log)
  qed
qed

lemma call_created:
  assumes "p \<in> set (triggered (snd (call c db taskId environment body opts)))"
  shows "triggered (snd (call c db taskId environment body opts)) = [p]"
    and "created_as p (normalized_ttl environment body) (generateFriendlyId c ''run'')
           (fst (handlePayloadPacket c (b_payload body) (body_payloadType body)
                   (generateFriendlyId c ''run'') environment))
           (find_attempt db (body_option o_dependentAttempt body))
           (find_attempt db (body_option o_parentAttempt body))
           (find_batch db (body_option o_dependentBatch body))"
    and "uploads (snd (call c db taskId environment body opts)) =
           uploads (snd (handlePayloadPacket c (b_payload body) (body_payloadType body)
                           (generateFriendlyId c ''run'') environment))"
    and "created_tags (snd (call c db taskId environment body opts)) =
           (case bodyTags body of None \<Rightarrow> [] | Some ts \<Rightarrow> ts)"
proof -
  note pass = call_triggered_passes [OF assms]
  from call_passes(1) [OF pass] obtain p' where
    p': "triggered (snd (call c db taskId environment body opts)) = [p']"
    and c': "created_as p' (normalized_ttl environment body) (generateFriendlyId c ''run'')
           (fst (handlePayloadPacket c (b_payload body) (body_payloadType body)
                   (generateFriendlyId c ''run'') environment))
           (find_attempt db (body_option o_dependentAttempt body))
           (find_attempt db (body_option o_parentAttempt body))
           (find_batch db (body_option o_dependentBatch body))"
    by blast
  from assms p' have eq: "p = p'" by simp
  from p' eq show "triggered (snd (call c db taskId environment body opts)) = [p]" by simp
  from c' eq show "created_as p (normalized_ttl environment body) (generateFriendlyId c ''run'')
           (fst (handlePayloadPacket c (b_payload body) (body_payloadType body)
                   (generateFriendlyId c ''run'') environment))
           (find_attempt db (body_option o_dependentAttempt body))
           (find_attempt db (body_option o_parentAttempt body))
           (find_batch db (body_option o_dependentBatch body))" by simp
  show "uploads (snd (call c db taskId environment body opts)) =
           uploads (snd (handlePayloadPacket c (b_payload body) (body_payloadType body)
                           (generateFriendlyId c ''run'') environment))"
    by (rule call_passes(2) [OF pass])
  show "created_tags (snd (call c db taskId environment body opts)) =
           (case bodyTags body of None \<Rightarrow> [] | Some ts \<Rightarrow> ts)"
    by (rule call_passes(3) [OF pass])
qed



lemma terminal_state_error_eq:
  "terminal_state_error c taskId a =
     (if terminal_attempt c a then Some (ServiceValidationError (terminal_message c taskId a))
      else None)"
  by (simp add: terminal_state_error_def terminal_attempt_def terminal_message_def)

lemma dependent_terminal_attempt_errors:
  assumes "dependent_terminal_attempt c db body = Some a"
  shows "terminal_attempt c a"
    and "dependentAttempt_error c db taskId body
           = Some (ServiceValidationError (terminal_message c taskId a))
         \<or> (dependentAttempt_error c db taskId body = None
            \<and> dependentBatch_error c db taskId body
                 = Some (ServiceValidationError (terminal_message c taskId a)))"
  using assms
  unfolding dependent_terminal_attempt_def dependentAttempt_error_def dependentBatch_error_def
    Let_def terminal_state_error_eq
  by (auto split: option.splits if_splits)

lemma handlePayloadPacket_inline:
  assumes "data (createPayloadPacket c payload payloadType) = Some d" and "d \<noteq> []"
  shows "handlePayloadPacket c payload payloadType pathPrefix environment =
     (if fst (packetRequiresOffloading c (createPayloadPacket c payload payloadType)
                (TASK_PAYLOAD_OFFLOAD_THRESHOLD c))
      then (\<lparr>data = Some (pathPrefix @ ''/payload.json''), dataType = ''application/store''\<rparr>,
            [UploadToObjectStore (pathPrefix @ ''/payload.json'') d
               (dataType (createPayloadPacket c payload payloadType)) environment])
      else (createPayloadPacket c payload payloadType, []))"
  using assms by (simp add: handlePayloadPacket_def Let_def case_prod_unfold)

lemma show_nat_8: "show_nat 8 = ''8''"
  by (simp add: show_nat.simps [of 8] digit_char_def digit_chars_def)

section \<open>The claims about \<^verbatim>\<open>call\<close>\<close>

subsection \<open>The idempotency gate\<close>




subsection \<open>Failures and their side effects\<close>

text \<open>
  Claim C3, as amended. The failures of the model are the ones the source raises itself,
  and all of them are raised before the tracing and counter envelopes. For every call
  that fails: no write to the database (counter, tags, Run) has been made and
  \<^verbatim>\<open>engine.trigger\<close> has not been called; when the failure is the entitlement check or the
  tag limit, nothing has been uploaded either; when it is a terminal dependency, the
  payload has already been handled, and the uploads are those of the payload handler (one
  upload when the packet needed offloading, none otherwise).
\<close>

theorem failure_side_effects:
  assumes "fst (call c db taskId environment body opts) = Inl e"
  shows "filter is_database_write (snd (call c db taskId environment body opts)) = []
    \<and> triggered (snd (call c db taskId environment body opts)) = []
    \<and> uploads (snd (call c db taskId environment body opts)) =
        (if entitlement_denied c environment \<or> tags_error body \<noteq> None then []
         else uploads (snd (handlePayloadPacket c (b_payload body) (body_payloadType body)
                              (generateFriendlyId c ''run'') environment)))"
proof -
  let ?ex = "find_existingRun db environment taskId (effective_idempotencyKey opts body)"
  have 1: "?ex = None"
  proof (rule ccontr)
    assume "?ex \<noteq> None"
    then obtain run where "?ex = Some run" by blast
    from call_hit [OF this, of c] assms show False by simp
  qed
  show ?thesis
  proof (cases "entitlement_denied c environment")
    case True
    from call_denied [OF 1 True] show ?thesis
      by (simp add: True entitlement_effects_def)
  next
    case denied: False
    show ?thesis
    proof (cases "tags_error body")
      case (Some e')
      from call_tags_rejected [OF 1 denied Some] show ?thesis
        by (simp add: Some entitlement_effects_def)
    next
      case tags: None
      show ?thesis
      proof (cases "dependentAttempt_error c db taskId body")
        case (Some e')
        from call_dependentAttempt_rejected [OF 1 denied tags Some] show ?thesis
          by (simp add: denied tags uploads_append triggered_append entitlement_effects_log
              handlePayloadPacket_log)
      next
        case dep: None
        show ?thesis
        proof (cases "dependentBatch_error c db taskId body")
          case (Some e')
          from call_dependentBatch_rejected [OF 1 denied tags dep Some] show ?thesis
            by (simp add: denied tags uploads_append triggered_append entitlement_effects_log
                handlePayloadPacket_log)
        next
          case None
          from call_passes(1) [OF 1 denied tags dep None] assms show ?thesis by auto
        qed
      qed
    qed
  qed
qed

text \<open>The theorem on the example world: a payload above the threshold and a dependent
  attempt that has failed.\<close>

theorem failure_side_effects_witness:
  "fst (call (example_collaborators True) example_database ''my-task''
          (example_environment PRODUCTION)
          (example_body ''a long payload''
             (no_options\<lparr>o_payloadType := Some ''text/plain'',
                o_dependentAttempt := Some ''attempt_failed''\<rparr>))
          (service_options None))
     = Inl (ServiceValidationError
         ''Cannot trigger my-task as the parent attempt has a status of FAILED'')
   \<and> filter is_database_write (snd (call (example_collaborators True) example_database ''my-task''
          (example_environment PRODUCTION)
          (example_body ''a long payload''
             (no_options\<lparr>o_payloadType := Some ''text/plain'',
                o_dependentAttempt := Some ''attempt_failed''\<rparr>))
          (service_options None))) = []
   \<and> triggered (snd (call (example_collaborators True) example_database ''my-task''
          (example_environment PRODUCTION)
          (example_body ''a long payload''
             (no_options\<lparr>o_payloadType := Some ''text/plain'',
                o_dependentAttempt := Some ''attempt_failed''\<rparr>))
          (service_options None))) = []
   \<and> length (uploads (snd (call (example_collaborators True) example_database ''my-task''
          (example_environment PRODUCTION)
          (example_body ''a long payload''
             (no_options\<lparr>o_payloadType := Some ''text/plain'',
                o_dependentAttempt := Some ''attempt_failed''\<rparr>))
          (service_options None)))) = 1"
proof -
  let ?out = "call (example_collaborators True) example_database ''my-task''
          (example_environment PRODUCTION)
          (example_body ''a long payload''
             (no_options\<lparr>o_payloadType := Some ''text/plain'',
                o_dependentAttempt := Some ''attempt_failed''\<rparr>))
          (service_options None)"
  have failed: "fst ?out = Inl (ServiceValidationError
         ''Cannot trigger my-task as the parent attempt has a status of FAILED'')"
    by code_simp
  have handled: "length
     (if entitlement_denied (example_collaborators True) (example_environment PRODUCTION)
         \<or> tags_error (example_body ''a long payload''
             (no_options\<lparr>o_payloadType := Some ''text/plain'',
                o_dependentAttempt := Some ''attempt_failed''\<rparr>)) \<noteq> None
      then []
      else uploads (snd (handlePayloadPacket (example_collaborators True)
             (b_payload (example_body ''a long payload''
                (no_options\<lparr>o_payloadType := Some ''text/plain'',
                   o_dependentAttempt := Some ''attempt_failed''\<rparr>)))
             (body_payloadType (example_body ''a long payload''
                (no_options\<lparr>o_payloadType := Some ''text/plain'',
                   o_dependentAttempt := Some ''attempt_failed''\<rparr>)))
             (generateFriendlyId (example_collaborators True) ''run'')
             (example_environment PRODUCTION)))) = 1"
    by code_simp
  from failure_side_effects [OF failed] failed handled show ?thesis by simp
qed

text \<open>
  Claim C3 as stated fails: \<^verbatim>\<open>#handlePayloadPacket\<close> runs before the dependent attempt
  is looked up. With a payload above the threshold and a dependent attempt whose status
  is \<^verbatim>\<open>FAILED\<close>, the call fails with the validation error after the payload has been
  uploaded to \<^verbatim>\<open>run_new/payload.json\<close>.
\<close>

theorem failure_after_upload_counterexample:
  "fst (call (example_collaborators True) example_database ''my-task''
          (example_environment PRODUCTION)
          (example_body ''a long payload''
             (no_options\<lparr>o_payloadType := Some ''text/plain'',
                o_dependentAttempt := Some ''attempt_failed''\<rparr>))
          (service_options None))
     = Inl (ServiceValidationError
         ''Cannot trigger my-task as the parent attempt has a status of FAILED'')
   \<and> uploads (snd (call (example_collaborators True) example_database ''my-task''
          (example_environment PRODUCTION)
          (example_body ''a long payload''
             (no_options\<lparr>o_payloadType := Some ''text/plain'',
                o_dependentAttempt := Some ''attempt_failed''\<rparr>))
          (service_options None)))
     = [(''run_new/payload.json'', ''a long payload'', ''text/plain'')]"
  by code_simp

subsection \<open>The terminal state gate\<close>

text \<open>
  Claim C4, as amended. Let the dependent attempt of the request, or else the dependent
  attempt of its dependent batch, resolve to an attempt \<open>a\<close> whose status is a final attempt
  status or whose run has a final run status. Then no Run is created and \<^verbatim>\<open>engine.trigger\<close>
  is not called; and when the call is not answered by the idempotency gate and is
  rejected neither by the entitlement check nor by the tag limit, it fails with the
  validation error whose message ends with the terminal status: the status of the attempt
  when that is final, else the status of its run.
\<close>

theorem terminal_dependent_attempt_rejected:
  assumes "dependent_terminal_attempt c db body = Some a"
  shows "(isFinalAttemptStatus c (at_status a) \<or> isFinalRunStatus c (tr_status (at_taskRun a)))
    \<and> triggered (snd (call c db taskId environment body opts)) = []
    \<and> (find_existingRun db environment taskId (effective_idempotencyKey opts body) = None
         \<and> \<not> entitlement_denied c environment \<and> tags_error body = None
        \<longrightarrow> fst (call c db taskId environment body opts)
              = Inl (ServiceValidationError
                  (if isFinalAttemptStatus c (at_status a)
                   then ''Cannot trigger '' @ taskId
                        @ '' as the parent attempt has a status of '' @ at_status a
                   else ''Cannot trigger '' @ taskId
                        @ '' as the parent run has a status of '' @ tr_status (at_taskRun a))))"
proof -
  note errs = dependent_terminal_attempt_errors(1) [OF assms]
    dependent_terminal_attempt_errors(2) [OF assms, of taskId]
  have no_run: "triggered (snd (call c db taskId environment body opts)) = []"
  proof (rule ccontr)
    assume "triggered (snd (call c db taskId environment body opts)) \<noteq> []"
    then obtain p where "p \<in> set (triggered (snd (call c db taskId environment body opts)))"
      by (cases "triggered (snd (call c db taskId environment body opts))") auto
    from call_triggered_passes(4,5) [OF this] errs(2) show False by auto
  qed
  have failure: "fst (call c db taskId environment body opts)
      = Inl (ServiceValidationError (terminal_message c taskId a))"
    if reach: "find_existingRun db environment taskId (effective_idempotencyKey opts body) = None"
      "\<not> entitlement_denied c environment" "tags_error body = None"
  proof -
    from errs(2) show ?thesis
    proof
      assume "dependentAttempt_error c db taskId body
           = Some (ServiceValidationError (terminal_message c taskId a))"
      from call_dependentAttempt_rejected [OF reach this] show ?thesis by simp
    next
      assume "dependentAttempt_error c db taskId body = None
            \<and> dependentBatch_error c db taskId body
                 = Some (ServiceValidationError (terminal_message c taskId a))"
      then have "dependentAttempt_error c db taskId body = None"
        and "dependentBatch_error c db taskId body
                 = Some (ServiceValidationError (terminal_message c taskId a))"
        by simp_all
      from call_dependentBatch_rejected [OF reach this] show ?thesis by simp
    qed
  qed
  from errs(1) no_run failure show ?thesis
    unfolding terminal_attempt_def terminal_message_def by simp
qed

text \<open>The theorem on the example world, once for a dependent attempt with status
  \<^verbatim>\<open>FAILED\<close> and once for a dependent batch whose dependent attempt has that status.\<close>

theorem terminal_dependent_attempt_rejected_witness:
  "fst (call (example_collaborators True) example_database ''my-task''
          (example_environment PRODUCTION)
          (example_body ''hi'' (no_options\<lparr>o_dependentAttempt := Some ''attempt_failed''\<rparr>))
          (service_options None))
     = Inl (ServiceValidationError
         ''Cannot trigger my-task as the parent attempt has a status of FAILED'')
   \<and> triggered (snd (call (example_collaborators True) example_database ''my-task''
          (example_environment PRODUCTION)
          (example_body ''hi'' (no_options\<lparr>o_dependentAttempt := Some ''attempt_failed''\<rparr>))
          (service_options None))) = []
   \<and> fst (call (example_collaborators True) example_database ''my-task''
          (example_environment PRODUCTION)
          (example_body ''hi'' (no_options\<lparr>o_dependentBatch := Some ''batch_2''\<rparr>))
          (service_options None))
     = Inl (ServiceValidationError
         ''Cannot trigger my-task as the parent attempt has a status of FAILED'')
   \<and> triggered (snd (call (example_collaborators True) example_database ''my-task''
          (example_environment PRODUCTION)
          (example_body ''hi'' (no_options\<lparr>o_dependentBatch := Some ''batch_2''\<rparr>))
          (service_options None))) = []"
proof -
  let ?c = "example_collaborators True"
  let ?a = "example_attempt ''attempt_failed'' ''FAILED''"
  let ?body1 = "example_body ''hi'' (no_options\<lparr>o_dependentAttempt := Some ''attempt_failed''\<rparr>)"
  let ?body2 = "example_body ''hi'' (no_options\<lparr>o_dependentBatch := Some ''batch_2''\<rparr>)"
  have t1: "dependent_terminal_attempt ?c example_database ?body1 = Some ?a"
    and t2: "dependent_terminal_attempt ?c example_database ?body2 = Some ?a"
    by code_simp+
  have r1: "find_existingRun example_database (example_environment PRODUCTION) ''my-task''
        (effective_idempotencyKey (service_options None) ?body1) = None
      \<and> \<not> entitlement_denied ?c (example_environment PRODUCTION) \<and> tags_error ?body1 = None"
    and r2: "find_existingRun example_database (example_environment PRODUCTION) ''my-task''
        (effective_idempotencyKey (service_options None) ?body2) = None
      \<and> \<not> entitlement_denied ?c (example_environment PRODUCTION) \<and> tags_error ?body2 = None"
    by code_simp+
  have final: "isFinalAttemptStatus ?c (at_status ?a)" "at_status ?a = ''FAILED''"
    by code_simp+
  from terminal_dependent_attempt_rejected [OF t1, of "''my-task''" "example_environment PRODUCTION"
      "service_options None"]
    terminal_dependent_attempt_rejected [OF t2, of "''my-task''" "example_environment PRODUCTION"
      "service_options None"] r1 r2 final
  show ?thesis by simp
qed

text \<open>
  Claim C4 as stated fails for a call that does not come to the terminal state gate: the
  idempotency gate, the entitlement check and the tag limit stand before it. A call with
  the dependent attempt \<^verbatim>\<open>attempt_failed\<close>, whose status is \<^verbatim>\<open>FAILED\<close>, and the idempotency
  key \<^verbatim>\<open>abc\<close> of an existing Run returns that Run, with no validation error.
\<close>

theorem terminal_gate_after_idempotency_counterexample:
  "find_attempt example_database
     (body_option o_dependentAttempt
        (example_body ''hi'' (no_options\<lparr>o_dependentAttempt := Some ''attempt_failed''\<rparr>)))
     = Some (example_attempt ''attempt_failed'' ''FAILED'')
   \<and> isFinalAttemptStatus (example_collaborators True)
        (at_status (example_attempt ''attempt_failed'' ''FAILED''))
   \<and> fst (call (example_collaborators True) example_database ''my-task''
          (example_environment PRODUCTION)
          (example_body ''hi'' (no_options\<lparr>o_dependentAttempt := Some ''attempt_failed''\<rparr>))
          (service_options (Some ''abc'')))
     = Inr (example_run ''run_a'' (Some ''abc'') ''EXECUTING'' 0)"
  by code_simp

subsection \<open>The fields of a created Run\<close>

text \<open>
  Claim C5. For every Run that a call hands to \<^verbatim>\<open>engine.trigger\<close>, \<open>depth\<close> is the depth
  of the run of the dependent attempt plus one when the dependent attempt resolves;
  otherwise the depth of the run of the parent attempt plus one when that resolves;
  otherwise the depth of the run of the dependent attempt of the dependent batch plus
  one when the batch resolves and has one; otherwise 0. In particular it is 0 when the
  request has none of \<^verbatim>\<open>dependentAttempt\<close>, \<^verbatim>\<open>parentAttempt\<close>, \<^verbatim>\<open>dependentBatch\<close>, whatever
  its \<^verbatim>\<open>parentBatch\<close>.
\<close>

theorem created_run_depth:
  assumes "p \<in> set (triggered (snd (call c db taskId environment body opts)))"
  shows "p_depth p =
      (case find_attempt db (body_option o_dependentAttempt body) of
         Some a \<Rightarrow> tr_depth (at_taskRun a) + 1
       | None \<Rightarrow>
           (case find_attempt db (body_option o_parentAttempt body) of
              Some a \<Rightarrow> tr_depth (at_taskRun a) + 1
            | None \<Rightarrow>
                (case find_batch db (body_option o_dependentBatch body) of
                   None \<Rightarrow> 0
                 | Some b \<Rightarrow>
                     (case bt_dependentTaskAttempt b of
                        Some a \<Rightarrow> tr_depth (at_taskRun a) + 1
                      | None \<Rightarrow> 0))))
    \<and> (body_option o_dependentAttempt body = None \<and> body_option o_parentAttempt body = None
         \<and> body_option o_dependentBatch body = None
        \<longrightarrow> p_depth p = 0)"
proof -
  from call_created(2) [OF assms]
  have d: "p_depth p = run_depth (find_attempt db (body_option o_dependentAttempt body))
      (find_attempt db (body_option o_parentAttempt body))
      (find_batch db (body_option o_dependentBatch body))"
    unfolding created_as_def by simp
  have "p_depth p = 0"
    if "body_option o_dependentAttempt body = None" "body_option o_parentAttempt body = None"
      "body_option o_dependentBatch body = None"
    using d that by (simp add: run_depth_def find_attempt_def find_batch_def)
  with d show ?thesis unfolding run_depth_def by simp
qed

text \<open>The theorem on the example world: a dependent attempt whose run has depth 2 gives
  depth 3, and a request with a parent batch only gives depth 0.\<close>

theorem created_run_depth_witness:
  "map p_depth (triggered (snd (call (example_collaborators True) example_database ''my-task''
          (example_environment PRODUCTION)
          (example_body ''hi'' (no_options\<lparr>o_dependentAttempt := Some ''attempt_live''\<rparr>))
          (service_options None)))) = [3]
   \<and> map p_depth (triggered (snd (call (example_collaborators True) example_database ''my-task''
          (example_environment PRODUCTION)
          (example_body ''hi'' (no_options\<lparr>o_parentBatch := Some ''batch_1''\<rparr>))
          (service_options None)))) = [0]"
proof -
  let ?body1 = "example_body ''hi'' (no_options\<lparr>o_dependentAttempt := Some ''attempt_live''\<rparr>)"
  let ?body2 = "example_body ''hi'' (no_options\<lparr>o_parentBatch := Some ''batch_1''\<rparr>)"
  let ?out1 = "call (example_collaborators True) example_database ''my-task''
          (example_environment PRODUCTION) ?body1 (service_options None)"
  let ?out2 = "call (example_collaborators True) example_database ''my-task''
          (example_environment PRODUCTION) ?body2 (service_options None)"
  have "length (triggered (snd ?out1)) = 1" and "length (triggered (snd ?out2)) = 1"
    by code_simp+
  then obtain p1 p2 where p: "triggered (snd ?out1) = [p1]" "triggered (snd ?out2) = [p2]"
    by (auto simp: length_Suc_conv)
  then have mem: "p1 \<in> set (triggered (snd ?out1))" "p2 \<in> set (triggered (snd ?out2))"
    by simp_all
  have d1: "find_attempt example_database (body_option o_dependentAttempt ?body1)
      = Some (example_attempt ''attempt_live'' ''EXECUTING'')"
    "tr_depth (at_taskRun (example_attempt ''attempt_live'' ''EXECUTING'')) = 2"
    by code_simp+
  have d2: "body_option o_dependentAttempt ?body2 = None \<and> body_option o_parentAttempt ?body2 = None
         \<and> body_option o_dependentBatch ?body2 = None"
    by code_simp
  from created_run_depth [OF mem(1)] d1 have "p_depth p1 = 3" by simp
  moreover from created_run_depth [OF mem(2)] d2 have "p_depth p2 = 0" by blast
  ultimately show ?thesis using p by simp
qed

text \<open>
  Claim C7. Let the payload packet have inline data: \<^verbatim>\<open>#createPayloadPacket\<close> returns a
  packet whose \<^verbatim>\<open>data\<close> is a non-empty string \<open>d\<close>. When \<^verbatim>\<open>packetRequiresOffloading\<close> reports
  \<^verbatim>\<open>needsOffloading = false\<close>, \<^verbatim>\<open>#handlePayloadPacket\<close> returns the packet unchanged and
  uploads nothing, and a Run that the call creates has the packet's data and data type as
  payload and payload type. Otherwise the handler uploads \<open>d\<close> to
  \<^verbatim>\<open><runFriendlyId>/payload.json\<close> with the packet's data type as content type, and a
  Run that the call creates has that file name as payload and \<^verbatim>\<open>application/store\<close> as
  payload type, the file name being built from the Run's own friendly id.
\<close>

theorem payload_packet_offloading:
  fixes c body
  defines "packet \<equiv> createPayloadPacket c (b_payload body) (body_payloadType body)"
  defines "needsOffloading \<equiv>
    fst (packetRequiresOffloading c packet (TASK_PAYLOAD_OFFLOAD_THRESHOLD c))"
  assumes "data packet = Some d" and "d \<noteq> []"
  shows "(\<not> needsOffloading \<longrightarrow>
          handlePayloadPacket c (b_payload body) (body_payloadType body) runFriendlyId environment
            = (packet, []))
    \<and> (needsOffloading \<longrightarrow>
          handlePayloadPacket c (b_payload body) (body_payloadType body) runFriendlyId environment
            = (\<lparr>data = Some (runFriendlyId @ ''/payload.json''), dataType = ''application/store''\<rparr>,
               [UploadToObjectStore (runFriendlyId @ ''/payload.json'') d (dataType packet)
                  environment]))
    \<and> (\<forall>p. p \<in> set (triggered (snd (call c db taskId environment body opts))) \<longrightarrow>
          (\<not> needsOffloading \<longrightarrow>
             p_payload p = d \<and> p_payloadType p = dataType packet
             \<and> uploads (snd (call c db taskId environment body opts)) = [])
          \<and> (needsOffloading \<longrightarrow>
               uploads (snd (call c db taskId environment body opts))
                 = [(p_friendlyId p @ ''/payload.json'', d, dataType packet)]
               \<and> p_payload p = p_friendlyId p @ ''/payload.json''
               \<and> p_payloadType p = ''application/store''))"
proof (intro conjI allI impI)
  note inline = assms(3,4) [unfolded packet_def]
  show "handlePayloadPacket c (b_payload body) (body_payloadType body) runFriendlyId environment
      = (packet, [])" if "\<not> needsOffloading"
    using that handlePayloadPacket_inline [OF inline, of runFriendlyId environment]
    unfolding needsOffloading_def packet_def by simp
  show "handlePayloadPacket c (b_payload body) (body_payloadType body) runFriendlyId environment
      = (\<lparr>data = Some (runFriendlyId @ ''/payload.json''), dataType = ''application/store''\<rparr>,
         [UploadToObjectStore (runFriendlyId @ ''/payload.json'') d (dataType packet) environment])"
    if needsOffloading
    using that handlePayloadPacket_inline [OF inline, of runFriendlyId environment]
    unfolding needsOffloading_def packet_def by simp
  fix p
  assume created: "p \<in> set (triggered (snd (call c db taskId environment body opts)))"
  let ?hp = "handlePayloadPacket c (b_payload body) (body_payloadType body)
      (generateFriendlyId c ''run'') environment"
  from call_created(2) [OF created]
  have f: "p_friendlyId p = generateFriendlyId c ''run''"
    and pl: "p_payload p = (case data (fst ?hp) of None \<Rightarrow> [] | Some d \<Rightarrow> d)"
    and pt: "p_payloadType p = dataType (fst ?hp)"
    unfolding created_as_def by simp_all
  note up = call_created(3) [OF created]
  note hp = handlePayloadPacket_inline [OF inline, of "generateFriendlyId c ''run''" environment]
  {
    assume "\<not> needsOffloading"
    then have "?hp = (packet, [])"
      using hp unfolding needsOffloading_def packet_def by simp
    with assms(3) show "p_payload p = d" and "p_payloadType p = dataType packet"
      and "uploads (snd (call c db taskId environment body opts)) = []"
      unfolding up pl pt by simp_all
  }
  {
    assume needsOffloading
    then have "?hp = (\<lparr>data = Some (generateFriendlyId c ''run'' @ ''/payload.json''),
          dataType = ''application/store''\<rparr>,
        [UploadToObjectStore (generateFriendlyId c ''run'' @ ''/payload.json'') d
           (dataType packet) environment])"
      using hp unfolding needsOffloading_def packet_def by simp
    then show "uploads (snd (call c db taskId environment body opts))
          = [(p_friendlyId p @ ''/payload.json'', d, dataType packet)]"
      and "p_payload p = p_friendlyId p @ ''/payload.json''"
      and "p_payloadType p = ''application/store''"
      unfolding up pl pt f by simp_all
  }
qed

text \<open>The theorem on the example world, with the threshold 8: the payload \<^verbatim>\<open>hi\<close> stays
  inline, the payload \<^verbatim>\<open>a long payload\<close> is uploaded.\<close>

theorem payload_packet_offloading_witness:
  "map (\<lambda>p. (p_payload p, p_payloadType p)) (triggered (snd (call (example_collaborators True) example_database ''my-task''
          (example_environment PRODUCTION)
          (example_body ''hi'' (no_options\<lparr>o_payloadType := Some ''text/plain''\<rparr>))
          (service_options None))))
     = [(''hi'', ''text/plain'')]
   \<and> uploads (snd (call (example_collaborators True) example_database ''my-task''
          (example_environment PRODUCTION)
          (example_body ''hi'' (no_options\<lparr>o_payloadType := Some ''text/plain''\<rparr>))
          (service_options None))) = []
   \<and> map (\<lambda>p. (p_payload p, p_payloadType p)) (triggered (snd (call (example_collaborators True) example_database ''my-task''
          (example_environment PRODUCTION)
          (example_body ''a long payload'' (no_options\<lparr>o_payloadType := Some ''text/plain''\<rparr>))
          (service_options None))))
     = [(''run_new/payload.json'', ''application/store'')]
   \<and> uploads (snd (call (example_collaborators True) example_database ''my-task''
          (example_environment PRODUCTION)
          (example_body ''a long payload'' (no_options\<lparr>o_payloadType := Some ''text/plain''\<rparr>))
          (service_options None)))
     = [(''run_new/payload.json'', ''a long payload'', ''text/plain'')]"
proof -
  let ?c = "example_collaborators True"
  let ?small = "example_body ''hi'' (no_options\<lparr>o_payloadType := Some ''text/plain''\<rparr>)"
  let ?big = "example_body ''a long payload'' (no_options\<lparr>o_payloadType := Some ''text/plain''\<rparr>)"
  let ?out1 = "call ?c example_database ''my-task'' (example_environment PRODUCTION) ?small
      (service_options None)"
  let ?out2 = "call ?c example_database ''my-task'' (example_environment PRODUCTION) ?big
      (service_options None)"
  have "length (triggered (snd ?out1)) = 1" and "length (triggered (snd ?out2)) = 1"
    by code_simp+
  then obtain p1 p2 where p: "triggered (snd ?out1) = [p1]" "triggered (snd ?out2) = [p2]"
    by (auto simp: length_Suc_conv)
  then have mem: "p1 \<in> set (triggered (snd ?out1))" "p2 \<in> set (triggered (snd ?out2))"
    by simp_all
  have id: "map p_friendlyId (triggered (snd ?out2)) = [''run_new'']"
    by code_simp
  have s: "data (createPayloadPacket ?c (b_payload ?small) (body_payloadType ?small)) = Some ''hi''"
    "dataType (createPayloadPacket ?c (b_payload ?small) (body_payloadType ?small)) = ''text/plain''"
    "\<not> fst (packetRequiresOffloading ?c
        (createPayloadPacket ?c (b_payload ?small) (body_payloadType ?small))
        (TASK_PAYLOAD_OFFLOAD_THRESHOLD ?c))"
    by code_simp+
  have b: "data (createPayloadPacket ?c (b_payload ?big) (body_payloadType ?big))
      = Some ''a long payload''"
    "dataType (createPayloadPacket ?c (b_payload ?big) (body_payloadType ?big)) = ''text/plain''"
    "fst (packetRequiresOffloading ?c
        (createPayloadPacket ?c (b_payload ?big) (body_payloadType ?big))
        (TASK_PAYLOAD_OFFLOAD_THRESHOLD ?c))"
    by code_simp+
  from payload_packet_offloading [where db = example_database and taskId = "''my-task''"
      and environment = "example_environment PRODUCTION" and opts = "service_options None",
      OF s(1)] s mem(1)
  have 1: "p_payload p1 = ''hi''" "p_payloadType p1 = ''text/plain''" "uploads (snd ?out1) = []"
    by simp_all
  from payload_packet_offloading [where db = example_database and taskId = "''my-task''"
      and environment = "example_environment PRODUCTION" and opts = "service_options None",
      OF b(1)] b mem(2)
  have 2: "uploads (snd ?out2) = [(p_friendlyId p2 @ ''/payload.json'', ''a long payload'', ''text/plain'')]"
    "p_payload p2 = p_friendlyId p2 @ ''/payload.json''" "p_payloadType p2 = ''application/store''"
    by simp_all
  from id p have "p_friendlyId p2 = ''run_new''" by simp
  with 1 2 p show ?thesis by simp
qed

subsection \<open>The tag limit\<close>

text \<open>
  Claim C6, as amended. For every call whose \<^verbatim>\<open>body.options.tags\<close> is a sequence, not a
  single string, of more than \<^verbatim>\<open>MAX_TAGS_PER_RUN = 8\<close> elements: no Run is created; and
  when the call is not answered by the idempotency gate and not rejected by the
  entitlement check, it fails with the validation error whose message names the limit 8
  and the requested count. A single string tag is lifted to a one-element sequence: a call
  with the tag \<open>s\<close> that creates a Run upserts exactly the tag \<open>s\<close>.
\<close>

theorem tag_limit_and_lifting:
  shows "(\<forall>ts. body_option o_tags body = Some (TagsArray ts) \<and> 8 < length ts \<longrightarrow>
        triggered (snd (call c db taskId environment body opts)) = []
        \<and> (find_existingRun db environment taskId (effective_idempotencyKey opts body) = None
            \<and> \<not> entitlement_denied c environment
           \<longrightarrow> fst (call c db taskId environment body opts)
                 = Inl (ServiceValidationError
                     (''Runs can only have 8 tags, you're trying to set ''
                      @ number_toString (int (length ts)) @ ''.''))))
    \<and> (\<forall>s p. body_option o_tags body = Some (TagsString s)
          \<and> p \<in> set (triggered (snd (call c db taskId environment body opts)))
         \<longrightarrow> created_tags (snd (call c db taskId environment body opts)) = [s])"
proof (intro conjI allI impI)
  fix ts
  assume a: "body_option o_tags body = Some (TagsArray ts) \<and> 8 < length ts"
  then have err: "tags_error body = Some (ServiceValidationError
       (''Runs can only have 8 tags, you're trying to set ''
        @ number_toString (int (length ts)) @ ''.''))"
    by (simp add: tags_error_def MAX_TAGS_PER_RUN_def number_toString_def show_nat_8
        digit_char_def digit_chars_def)
  show "triggered (snd (call c db taskId environment body opts)) = []"
  proof (rule ccontr)
    assume "triggered (snd (call c db taskId environment body opts)) \<noteq> []"
    then obtain p where "p \<in> set (triggered (snd (call c db taskId environment body opts)))"
      by (cases "triggered (snd (call c db taskId environment body opts))") auto
    from call_triggered_passes(3) [OF this] err show False by simp
  qed
  assume "find_existingRun db environment taskId (effective_idempotencyKey opts body) = None
      \<and> \<not> entitlement_denied c environment"
  then have reach: "find_existingRun db environment taskId (effective_idempotencyKey opts body) = None"
    "\<not> entitlement_denied c environment" by simp_all
  from call_tags_rejected [OF reach err]
  show "fst (call c db taskId environment body opts)
      = Inl (ServiceValidationError
          (''Runs can only have 8 tags, you're trying to set ''
           @ number_toString (int (length ts)) @ ''.''))" by simp
next
  fix s p
  assume a: "body_option o_tags body = Some (TagsString s)
      \<and> p \<in> set (triggered (snd (call c db taskId environment body opts)))"
  then have "p \<in> set (triggered (snd (call c db taskId environment body opts)))" by simp
  from call_created(4) [OF this] a
  show "created_tags (snd (call c db taskId environment body opts)) = [s]"
    by (simp add: bodyTags_def)
qed

text \<open>The theorem on the example world: nine tags are refused with the counts 8 and 9
  in the message, and the single tag \<^verbatim>\<open>solo\<close> is upserted once.\<close>

theorem tag_limit_and_lifting_witness:
  "fst (call (example_collaborators True) example_database ''my-task''
          (example_environment PRODUCTION)
          (example_body ''hi'' (no_options\<lparr>o_tags := Some (TagsArray [''t1'', ''t2'', ''t3'', ''t4'', ''t5'', ''t6'', ''t7'', ''t8'', ''t9''])\<rparr>))
          (service_options None))
     = Inl (ServiceValidationError ''Runs can only have 8 tags, you're trying to set 9.'')
   \<and> triggered (snd (call (example_collaborators True) example_database ''my-task''
          (example_environment PRODUCTION)
          (example_body ''hi'' (no_options\<lparr>o_tags := Some (TagsArray [''t1'', ''t2'', ''t3'', ''t4'', ''t5'', ''t6'', ''t7'', ''t8'', ''t9''])\<rparr>))
          (service_options None))) = []
   \<and> created_tags (snd (call (example_collaborators True) example_database ''my-task''
          (example_environment PRODUCTION)
          (example_body ''hi'' (no_options\<lparr>o_tags := Some (TagsString ''solo'')\<rparr>))
          (service_options None))) = [''solo'']"
proof -
  let ?c = "example_collaborators True"
  let ?nine = "[''t1'', ''t2'', ''t3'', ''t4'', ''t5'', ''t6'', ''t7'', ''t8'', ''t9'']"
  let ?body9 = "example_body ''hi'' (no_options\<lparr>o_tags := Some (TagsArray ?nine)\<rparr>)"
  let ?solo = "example_body ''hi'' (no_options\<lparr>o_tags := Some (TagsString ''solo'')\<rparr>)"
  let ?out = "call ?c example_database ''my-task'' (example_environment PRODUCTION) ?solo
      (service_options None)"
  have nine: "body_option o_tags ?body9 = Some (TagsArray ?nine) \<and> 8 < length ?nine"
    by code_simp
  have reach: "find_existingRun example_database (example_environment PRODUCTION) ''my-task''
        (effective_idempotencyKey (service_options None) ?body9) = None
      \<and> \<not> entitlement_denied ?c (example_environment PRODUCTION)"
    by code_simp
  have msg: "''Runs can only have 8 tags, you're trying to set '' @ number_toString (int (length ?nine))
      @ ''.'' = ''Runs can only have 8 tags, you're trying to set 9.''"
    by code_simp
  have solo: "body_option o_tags ?solo = Some (TagsString ''solo'')"
    by code_simp
  have "length (triggered (snd ?out)) = 1"
    by code_simp
  then obtain p where "triggered (snd ?out) = [p]"
    by (auto simp: length_Suc_conv)
  then have mem: "p \<in> set (triggered (snd ?out))" by simp
  note thm9 = tag_limit_and_lifting [of ?body9 ?c example_database "''my-task''"
      "example_environment PRODUCTION" "service_options None"]
  note thm1 = tag_limit_and_lifting [of ?solo ?c example_database "''my-task''"
      "example_environment PRODUCTION" "service_options None"]
  from thm9 nine reach have
    "triggered (snd (call ?c example_database ''my-task'' (example_environment PRODUCTION) ?body9
        (service_options None))) = []"
    and "fst (call ?c example_database ''my-task'' (example_environment PRODUCTION) ?body9
        (service_options None))
      = Inl (ServiceValidationError (''Runs can only have 8 tags, you're trying to set ''
          @ number_toString (int (length ?nine)) @ ''.''))"
    by blast+
  moreover from thm1 solo mem have "created_tags (snd ?out) = [''solo'']"
    by blast
  ultimately show ?thesis unfolding msg by simp
qed

text \<open>
  Claim C6 as stated fails: the tag limit is checked after the idempotency gate and the
  entitlement check. A call with nine tags and the idempotency key \<^verbatim>\<open>abc\<close> of an existing
  Run returns that Run, with no validation error.
\<close>

theorem tag_limit_after_gate_counterexample:
  "body_option o_tags (example_body ''hi'' (no_options\<lparr>o_tags := Some (TagsArray [''t1'', ''t2'', ''t3'', ''t4'', ''t5'', ''t6'', ''t7'', ''t8'', ''t9''])\<rparr>))
     = Some (TagsArray [''t1'', ''t2'', ''t3'', ''t4'', ''t5'', ''t6'', ''t7'', ''t8'', ''t9''])
   \<and> 8 < length [''t1'', ''t2'', ''t3'', ''t4'', ''t5'', ''t6'', ''t7'', ''t8'', ''t9'']
   \<and> fst (call (example_collaborators True) example_database ''my-task''
          (example_environment PRODUCTION)
          (example_body ''hi'' (no_options\<lparr>o_tags := Some (TagsArray [''t1'', ''t2'', ''t3'', ''t4'', ''t5'', ''t6'', ''t7'', ''t8'', ''t9''])\<rparr>))
          (service_options (Some ''abc'')))
     = Inr (example_run ''run_a'' (Some ''abc'') ''EXECUTING'' 0)"
  by code_simp

subsection \<open>Resuming the parent\<close>

text \<open>
  Claim C8, as amended. For every Run that a call hands to \<^verbatim>\<open>engine.trigger\<close>,
  \<^verbatim>\<open>resumeParentOnCompletion\<close> is true if and only if the \<^verbatim>\<open>dependentAttempt\<close> reference
  of the request resolves to an attempt or its \<^verbatim>\<open>dependentBatch\<close> reference resolves to a
  batch. A reference that is absent, empty or not found counts as not resolved.
\<close>

theorem created_run_resumeParentOnCompletion:
  assumes "p \<in> set (triggered (snd (call c db taskId environment body opts)))"
  shows "p_resumeParentOnCompletion p \<longleftrightarrow>
      (find_attempt db (body_option o_dependentAttempt body) \<noteq> None
       \<or> find_batch db (body_option o_dependentBatch body) \<noteq> None)"
  using call_created(2) [OF assms] unfolding created_as_def by simp

text \<open>The theorem on the example world: the dependent attempt \<^verbatim>\<open>attempt_live\<close> exists.\<close>

theorem created_run_resumeParentOnCompletion_witness:
  "map p_resumeParentOnCompletion (triggered (snd (call (example_collaborators True) example_database ''my-task''
          (example_environment PRODUCTION)
          (example_body ''hi'' (no_options\<lparr>o_dependentAttempt := Some ''attempt_live''\<rparr>))
          (service_options None)))) = [True]"
proof -
  let ?body = "example_body ''hi'' (no_options\<lparr>o_dependentAttempt := Some ''attempt_live''\<rparr>)"
  let ?out = "call (example_collaborators True) example_database ''my-task''
      (example_environment PRODUCTION) ?body (service_options None)"
  have "length (triggered (snd ?out)) = 1"
    by code_simp
  then obtain p where p: "triggered (snd ?out) = [p]"
    by (auto simp: length_Suc_conv)
  then have mem: "p \<in> set (triggered (snd ?out))" by simp
  have "find_attempt example_database (body_option o_dependentAttempt ?body) \<noteq> None"
    by code_simp
  with created_run_resumeParentOnCompletion [OF mem] have "p_resumeParentOnCompletion p"
    by simp
  with p show ?thesis by simp
qed

text \<open>
  Claim C8 as stated fails for a reference that does not resolve: the flag is
  \<^verbatim>\<open>!!(dependentAttempt ?? dependentBatchRun)\<close> on the records that \<^verbatim>\<open>findUnique\<close>
  returned. A request whose \<^verbatim>\<open>dependentAttempt\<close> names no attempt of the table creates a
  Run with \<^verbatim>\<open>resumeParentOnCompletion = false\<close>.
\<close>

theorem dangling_dependentAttempt_counterexample:
  "body_option o_dependentAttempt (example_body ''hi'' (no_options\<lparr>o_dependentAttempt := Some ''attempt_missing''\<rparr>))
     = Some ''attempt_missing''
   \<and> map p_resumeParentOnCompletion (triggered (snd (call (example_collaborators True) example_database ''my-task''
          (example_environment PRODUCTION)
          (example_body ''hi'' (no_options\<lparr>o_dependentAttempt := Some ''attempt_missing''\<rparr>))
          (service_options None)))) = [False]"
  by code_simp

subsection \<open>A numeric ttl that is not positive\<close>

text \<open>
  Claim C10. For every call whose \<^verbatim>\<open>body.options.ttl\<close> is a number \<open>n \<le> 0\<close>, a Run that
  the call creates has no ttl, in a development environment too: the numeric branch
  calls \<^verbatim>\<open>stringifyDuration\<close>, which returns \<^verbatim>\<open>undefined\<close>, and the default \<^verbatim>\<open>10m\<close> applies
  only when the ttl is absent.
\<close>

theorem created_run_ttl_nonpositive:
  assumes "p \<in> set (triggered (snd (call c db taskId environment body opts)))"
    and "body_option o_ttl body = Some (TtlNumber n)" and "n \<le> 0"
  shows "p_ttl p = None"
proof -
  from call_created(2) [OF assms(1)] have "p_ttl p = normalized_ttl environment body"
    unfolding created_as_def by simp
  also from assms(2,3) have "normalized_ttl environment body = None"
    by (simp add: normalized_ttl_def stringifyDuration_def)
  finally show ?thesis .
qed

text \<open>The theorem on the example world: ttl 0 in a development environment.\<close>

theorem created_run_ttl_nonpositive_witness:
  "map p_ttl (triggered (snd (call (example_collaborators True) example_database ''my-task''
          (example_environment DEVELOPMENT)
          (example_body ''hi'' (no_options\<lparr>o_ttl := Some (TtlNumber 0)\<rparr>))
          (service_options None)))) = [None]"
proof -
  let ?body = "example_body ''hi'' (no_options\<lparr>o_ttl := Some (TtlNumber 0)\<rparr>)"
  let ?out = "call (example_collaborators True) example_database ''my-task''
      (example_environment DEVELOPMENT) ?body (service_options None)"
  have "length (triggered (snd ?out)) = 1"
    by code_simp
  then obtain p where p: "triggered (snd ?out) = [p]"
    by (auto simp: length_Suc_conv)
  then have mem: "p \<in> set (triggered (snd ?out))" by simp
  have ttl: "body_option o_ttl ?body = Some (TtlNumber 0)"
    by code_simp
  from created_run_ttl_nonpositive [OF mem ttl] have "p_ttl p = None" by simp
  with p show ?thesis by simp
qed

subsection \<open>A whole run on the example world\<close>

text \<open>
  A fresh request in a production environment with two tags and the delay \<^verbatim>\<open>1h30m\<close>, no
  worker being deployed: one Run is handed to the engine, with the first number of its
  counter, the default queue of the task, the delay of 5400 seconds added to the clock,
  no \<^verbatim>\<open>queuedAt\<close>, two tag ids, depth 0, the master queue \<^verbatim>\<open>main\<close> and no parent.
\<close>

lemma fresh_run_on_example_world:
  "map (\<lambda>p. (p_number p, p_queueName p, p_delayUntil p, p_queuedAt p, p_tags p, p_depth p,
              p_masterQueue p, p_parentTaskRunId p))
     (triggered (snd (call (example_collaborators True) example_database ''send-email''
        (example_environment PRODUCTION)
        (example_body ''hello''
           (no_options\<lparr>o_tags := Some (TagsArray [''welcome'', ''v2'']),
              o_delay := Some (DelayString ''1h30m''), o_test := Some False\<rparr>))
        (service_options None))))
   = [(1, ''task/send-email'', Some (1000 + 1000 * 5400), None, [''tag_welcome'', ''tag_v2''], 0,
       ''main'', None)]"
  by code_simp

end
